theory Spec2Isabelle
  imports Complex_Main "HOL-Library.Log_Nat" "HOL-Library.Multiset"
begin

section \<open>JavaScript values used by the HR application\<close>

subsection \<open>Dates\<close>

text \<open>
  A JavaScript \<^verbatim>\<open>Date\<close> is either \<^verbatim>\<open>Invalid Date\<close> (what \<^verbatim>\<open>new Date("garbage")\<close>
  yields) or a number of milliseconds since the epoch. The local time zone is taken to be
  UTC without daylight saving, so the local calendar day of a time stamp is its
  quotient by the length of a day, and 1970-01-01 (day 0) is a Thursday.
  A numeric accessor of an invalid date is \<^verbatim>\<open>NaN\<close>, written \<open>None\<close>; every comparison
  with \<^verbatim>\<open>NaN\<close> is false.
\<close>

datatype jsdate = Invalid_Date | Date_ms int

definition msPerDay :: int where
  "msPerDay = 1000 * 60 * 60 * 24"

fun getTime :: "jsdate \<Rightarrow> int option" where
  "getTime Invalid_Date = None"
| "getTime (Date_ms t) = Some t"

fun getHours :: "jsdate \<Rightarrow> int option" where
  "getHours Invalid_Date = None"
| "getHours (Date_ms t) = Some ((t div 3600000) mod 24)"

fun getMinutes :: "jsdate \<Rightarrow> int option" where
  "getMinutes Invalid_Date = None"
| "getMinutes (Date_ms t) = Some ((t div 60000) mod 60)"

fun getDay :: "jsdate \<Rightarrow> int option" where
  "getDay Invalid_Date = None"
| "getDay (Date_ms t) = Some ((t div msPerDay + 4) mod 7)"

text \<open>\<^verbatim>\<open>a >= b\<close> and \<^verbatim>\<open>a > b\<close> on numbers, and \<^verbatim>\<open>d1 <= d2\<close> on dates (which compares
  the time values).\<close>

fun num_ge :: "int option \<Rightarrow> int \<Rightarrow> bool" where
  "num_ge None b = False"
| "num_ge (Some a) b = (b \<le> a)"

fun num_gt :: "int option \<Rightarrow> int \<Rightarrow> bool" where
  "num_gt None b = False"
| "num_gt (Some a) b = (b < a)"

fun date_le :: "jsdate \<Rightarrow> jsdate \<Rightarrow> bool" where
  "date_le (Date_ms a) (Date_ms b) = (a \<le> b)"
| "date_le _ _ = False"

text \<open>The calendar day of a date, which is what \<^verbatim>\<open>format(d, 'yyyy-MM-dd')\<close>,
  \<^verbatim>\<open>format(d, 'MM/dd')\<close> (within one year) and \<^verbatim>\<open>d.toDateString()\<close> print; the day
  number stands for the printed string.\<close>

definition dayOf :: "int \<Rightarrow> int" where
  "dayOf t = t div msPerDay"

text \<open>A time of day on calendar day \<open>d\<close>, for stating examples.\<close>

definition clock :: "int \<Rightarrow> int \<Rightarrow> int \<Rightarrow> int \<Rightarrow> jsdate" where
  "clock d h m s = Date_ms (d * msPerDay + h * 3600000 + m * 60000 + s * 1000)"

subsection \<open>Exceptions\<close>

datatype js_error = RangeError

subsection \<open>Integer-valued numbers that may be NaN\<close>

text \<open>Counters and day counts are integers far below \<open>2 ^ 53\<close>, where double precision
  arithmetic on integers is exact; the only special value they can take is \<^verbatim>\<open>NaN\<close>.\<close>

datatype jsnum = NaN | Num int

fun num_add :: "jsnum \<Rightarrow> jsnum \<Rightarrow> jsnum" where
  "num_add (Num a) (Num b) = Num (a + b)"
| "num_add _ _ = NaN"

subsection \<open>Double precision arithmetic\<close>

text \<open>
  Every other JavaScript number is an IEEE 754 binary64 value. A finite double is
  modelled by the rational it denotes; \<open>fl\<close> rounds a rational to the nearest double,
  ties to even, with the fixed quantum \<open>2 ^ -1074\<close> in the subnormal range. Overflow
  to infinity is not modelled: the salaries and time stamps of this application stay many
  orders of magnitude below \<open>2 ^ 1024\<close>.
\<close>

definition pow2 :: "int \<Rightarrow> rat" where
  "pow2 e = (if 0 \<le> e then 2 ^ nat e else 1 / 2 ^ nat (- e))"

text \<open>\<open>ilog2 x\<close> is the binary exponent of a positive \<open>x\<close>: \<open>2 ^ ilog2 x \<le> x < 2 ^ (ilog2 x + 1)\<close>.\<close>

definition ilog2 :: "rat \<Rightarrow> int" where
  "ilog2 x = (if 1 \<le> x then bitlen \<lfloor>x\<rfloor> - 1 else - bitlen (\<lceil>1 / x\<rceil> - 1))"

definition roundHalfEven :: "rat \<Rightarrow> int" where
  "roundHalfEven x =
     (let f = \<lfloor>x\<rfloor>; r = x - of_int f
      in if r < 1 / 2 then f else if 1 / 2 < r then f + 1 else if even f then f else f + 1)"

definition fl :: "rat \<Rightarrow> rat" where
  "fl x = (if x = 0 then 0
           else let e = max (ilog2 \<bar>x\<bar>) (- 1022); q = pow2 (e - 52)
                in of_int (roundHalfEven (x / q)) * q)"

text \<open>The arithmetic operators: the exact result, rounded once.\<close>

definition dadd :: "rat \<Rightarrow> rat \<Rightarrow> rat" where
  "dadd x y = fl (x + y)"

definition dsub :: "rat \<Rightarrow> rat \<Rightarrow> rat" where
  "dsub x y = fl (x - y)"

definition dmul :: "rat \<Rightarrow> rat \<Rightarrow> rat" where
  "dmul x y = fl (x * y)"

text \<open>Division, for a divisor that is not zero (every division of the modelled code is
  guarded or has a constant divisor).\<close>

definition ddiv :: "rat \<Rightarrow> rat \<Rightarrow> rat" where
  "ddiv x y = fl (x / y)"

text \<open>A decimal literal of the source denotes the double nearest to it.\<close>

definition lit_0_4 :: rat where "lit_0_4 = fl (4 / 10)"
definition lit_0_2 :: rat where "lit_0_2 = fl (2 / 10)"
definition lit_0_12 :: rat where "lit_0_12 = fl (12 / 100)"
definition lit_0_1 :: rat where "lit_0_1 = fl (1 / 10)"
definition lit_1_4 :: rat where "lit_1_4 = fl (14 / 10)"

section \<open>Data model (shared/schema.ts)\<close>

text \<open>A date-valued field holds \<open>None\<close> when it is \<^verbatim>\<open>null\<close>, absent or otherwise falsy,
  and \<open>Some d\<close> when \<^verbatim>\<open>new Date(field)\<close> is \<open>d\<close>: an unparseable string is
  \<open>Some Invalid_Date\<close>.\<close>

record attendance =
  att_id :: int
  userId :: int
  checkInTime :: "jsdate option"
  checkOutTime :: "jsdate option"
  date :: "jsdate option"
  status :: string
  att_notes :: "string option"

record leave_request =
  lr_id :: int
  lr_userId :: int
  lr_type :: string
  startDate :: jsdate
  endDate :: jsdate
  lr_status :: string

record employee =
  emp_id :: int
  firstName :: string
  lastName :: string
  position :: "string option"
  departmentId :: "int option"
  salary :: "int option"

text \<open>An entry of a report: the employee with the attendance records or the leave
  requests selected for them. A field that is \<^verbatim>\<open>undefined\<close> is \<open>None\<close>.\<close>

record report_entry =
  user :: employee
  records :: "attendance list option"
  leaveRequests :: "leave_request list option"

section \<open>Reports page\<close>

subsection \<open>Lateness\<close>

text \<open>The filter of \<^verbatim>\<open>prepareAttendanceChartData\<close> that counts late records. Neither
  \<^verbatim>\<open>new Date\<close> nor the accessors throw, so the \<^verbatim>\<open>catch\<close> branch is never taken.\<close>

definition lateInChart :: "attendance \<Rightarrow> bool" where
  "lateInChart rcd =
     (if status rcd \<noteq> ''present'' \<or> checkInTime rcd = None then False
      else case checkInTime rcd of
             Some checkIn \<Rightarrow> num_ge (getHours checkIn) 9 \<and> num_gt (getMinutes checkIn) 0
           | None \<Rightarrow> False)"

text \<open>The filter of the "Late Days" cell of \<^verbatim>\<open>attendanceColumns\<close>.\<close>

definition lateInCell :: "attendance \<Rightarrow> bool" where
  "lateInCell r =
     (status r = ''present'' \<and>
      (case checkInTime r of
         None \<Rightarrow> False
       | Some t \<Rightarrow> num_ge (getHours t) 9 \<and> num_gt (getMinutes t) 0))"

text \<open>A present record of employee 1 with the given check-in, for stating examples.\<close>

definition present_at :: "jsdate \<Rightarrow> attendance" where
  "present_at t = \<lparr>att_id = 1, userId = 1, checkInTime = Some t, checkOutTime = None,
     date = Some t, status = ''present'', att_notes = None\<rparr>"

subsection \<open>Reconciled rows: \<^verbatim>\<open>allEmployeeReportData\<close>\<close>

datatype report_type = Attendance | Payroll | Leave

record payroll_row =
  p_user :: employee
  p_salary :: rat
  grossSalary :: rat
  hra :: rat
  pf :: rat
  tds :: rat
  netSalary :: rat

datatype report_row = Payroll_row payroll_row | Entry_row report_entry

text \<open>\<^verbatim>\<open>employee.salary || 0\<close>; the salary is a 32-bit integer column, so it is a double.\<close>

definition salary_or_0 :: "employee \<Rightarrow> rat" where
  "salary_or_0 employee = (case salary employee of None \<Rightarrow> 0 | Some s \<Rightarrow> of_int s)"

text \<open>The payroll branch, each field with the expression the source has for it.\<close>

definition payroll_of :: "employee \<Rightarrow> payroll_row" where
  "payroll_of employee =
     \<lparr>p_user = employee,
      p_salary = salary_or_0 employee,
      grossSalary = dadd (salary_or_0 employee) (dmul (salary_or_0 employee) lit_0_4),
      hra = dmul (salary_or_0 employee) lit_0_2,
      pf = dmul (salary_or_0 employee) lit_0_12,
      tds = dmul (dadd (salary_or_0 employee) (dmul (salary_or_0 employee) lit_0_4)) lit_0_1,
      netSalary =
        dsub (dsub (dadd (salary_or_0 employee) (dmul (salary_or_0 employee) lit_0_4))
                   (dmul (salary_or_0 employee) lit_0_12))
             (dmul (dadd (salary_or_0 employee) (dmul (salary_or_0 employee) lit_0_4)) lit_0_1)\<rparr>"

definition default_entry :: "report_type \<Rightarrow> employee \<Rightarrow> report_entry" where
  "default_entry reportType employee =
     \<lparr>user = employee,
      records = (if reportType = Attendance then Some [] else None),
      leaveRequests = (if reportType = Leave then Some [] else None)\<rparr>"

definition allEmployeeReportData ::
  "report_type \<Rightarrow> employee list \<Rightarrow> report_entry list \<Rightarrow> report_row list" where
  "allEmployeeReportData reportType employees reportData =
     map (\<lambda>employee.
            if reportType = Payroll then Payroll_row (payroll_of employee)
            else case find (\<lambda>data. emp_id (user data) = emp_id employee) reportData of
                   Some existingData \<Rightarrow> Entry_row existingData
                 | None \<Rightarrow> Entry_row (default_entry reportType employee))
         employees"

subsection \<open>Attendance chart: \<^verbatim>\<open>prepareAttendanceChartData\<close>\<close>

record chart_row =
  row_date :: int
  present :: nat
  absent :: nat
  late :: nat

definition subDays :: "int \<Rightarrow> int \<Rightarrow> int" where
  "subDays t n = t - n * msPerDay"

text \<open>Whether a record is pushed for the day printed as \<open>dateStr\<close>: \<^verbatim>\<open>format\<close> throws
  on an invalid date, and the \<^verbatim>\<open>catch\<close> skips the record.\<close>

definition onDay :: "int \<Rightarrow> attendance \<Rightarrow> bool" where
  "onDay dateStr rcd =
     (case date rcd of
        None \<Rightarrow> False
      | Some Invalid_Date \<Rightarrow> False
      | Some (Date_ms t) \<Rightarrow> dayOf t = dateStr)"

definition dayRecords :: "report_entry list \<Rightarrow> int \<Rightarrow> attendance list" where
  "dayRecords reportData dateStr =
     concat (map (\<lambda>entry. case records entry of
                             None \<Rightarrow> []
                           | Some rs \<Rightarrow> filter (onDay dateStr) rs) reportData)"

definition chart_row_of :: "report_entry list \<Rightarrow> int \<Rightarrow> chart_row" where
  "chart_row_of reportData d =
     (let recs = dayRecords reportData (dayOf d)
      in \<lparr>row_date = dayOf d,
          present = length (filter (\<lambda>rcd. status rcd = ''present'') recs),
          absent = length (filter (\<lambda>rcd. status rcd = ''absent'') recs),
          late = length (filter lateInChart recs)\<rparr>)"

text \<open>\<open>today\<close> is the value of \<^verbatim>\<open>new Date()\<close> when the chart is prepared.\<close>

definition prepareAttendanceChartData ::
  "report_type \<Rightarrow> report_entry list \<Rightarrow> int \<Rightarrow> chart_row list" where
  "prepareAttendanceChartData reportType reportData today =
     (if reportType \<noteq> Attendance \<or> reportData = [] then []
      else map (chart_row_of reportData) (map (\<lambda>i. subDays today (6 - int i)) [0..<7]))"

subsection \<open>Leave chart: \<^verbatim>\<open>prepareLeaveChartData\<close>\<close>

text \<open>An object with string keys and numeric values, in insertion order, which is the
  order of \<^verbatim>\<open>Object.entries\<close>. Reading a missing key gives \<^verbatim>\<open>undefined\<close> (\<open>None\<close>);
  writing one appends it.\<close>

type_synonym js_object = "(string \<times> jsnum) list"

fun obj_set :: "js_object \<Rightarrow> string \<Rightarrow> jsnum \<Rightarrow> js_object" where
  "obj_set [] k v = [(k, v)]"
| "obj_set ((k', v') # kvs) k v = (if k' = k then (k, v) # kvs else (k', v') # obj_set kvs k v)"

text \<open>\<^verbatim>\<open>obj[k] += 1\<close>, where \<^verbatim>\<open>undefined + 1\<close> is \<^verbatim>\<open>NaN\<close>.\<close>

definition obj_incr :: "js_object \<Rightarrow> string \<Rightarrow> js_object" where
  "obj_incr obj k =
     obj_set obj k (case map_of obj k of None \<Rightarrow> NaN | Some v \<Rightarrow> num_add v (Num 1))"

definition leaveTypeCounts0 :: js_object where
  "leaveTypeCounts0 =
     [(''annual'', Num 0), (''sick'', Num 0), (''personal'', Num 0), (''unpaid'', Num 0),
      (''other'', Num 0)]"

definition count_entry :: "report_entry \<Rightarrow> js_object \<Rightarrow> js_object" where
  "count_entry entry counts =
     (case leaveRequests entry of
        None \<Rightarrow> counts
      | Some rs \<Rightarrow>
          fold (\<lambda>request c. if lr_status request = ''approved'' then obj_incr c (lr_type request)
                            else c) rs counts)"

text \<open>\<^verbatim>\<open>type.charAt(0).toUpperCase() + type.slice(1)\<close> on ASCII.\<close>

definition toUpperCase_char :: "char \<Rightarrow> char" where
  "toUpperCase_char c =
     (let n = (of_char c :: nat) in if 97 \<le> n \<and> n \<le> 122 then char_of (n - 32) else c)"

fun capitalize :: "string \<Rightarrow> string" where
  "capitalize [] = []"
| "capitalize (c # cs) = toUpperCase_char c # cs"

record pie_slice =
  name :: string
  pie_value :: jsnum

definition prepareLeaveChartData :: "report_type \<Rightarrow> report_entry list \<Rightarrow> pie_slice list" where
  "prepareLeaveChartData reportType reportData =
     (if reportType \<noteq> Leave \<or> reportData = [] then []
      else map (\<lambda>(type, count). \<lparr>name = capitalize type, pie_value = count\<rparr>)
             (fold count_entry reportData leaveTypeCounts0))"

subsection \<open>Table cells\<close>

text \<open>"Total Days" of \<^verbatim>\<open>leaveColumns\<close>. \<^verbatim>\<open>Math.ceil\<close> of the quotient of two integers
  below \<open>2 ^ 53\<close> by the length of a day is the ceiling of the exact quotient.\<close>

definition leave_days :: "leave_request \<Rightarrow> jsnum" where
  "leave_days leave =
     (case (getTime (endDate leave), getTime (startDate leave)) of
        (Some e, Some s) \<Rightarrow> Num (\<lceil>(of_int (e - s) :: rat) / of_int msPerDay\<rceil> + 1)
      | _ \<Rightarrow> NaN)"

definition totalDays_cell :: "report_entry \<Rightarrow> jsnum" where
  "totalDays_cell row =
     (let approvedLeaves =
            (case leaveRequests row of
               None \<Rightarrow> []
             | Some rs \<Rightarrow> filter (\<lambda>r. lr_status r = ''approved'') rs)
      in fold (\<lambda>leave acc. num_add acc (leave_days leave)) approvedLeaves (Num 0))"

text \<open>\<^verbatim>\<open>format(d, 'hh:mm a')\<close> of date-fns: twelve-hour clock, two digits each, AM or PM;
  it throws a \<^verbatim>\<open>RangeError\<close> on an invalid date.\<close>

definition pad2 :: "nat \<Rightarrow> string" where
  "pad2 n = [char_of (48 + n div 10), char_of (48 + n mod 10)]"

fun format_hh_mm_a :: "jsdate \<Rightarrow> js_error + string" where
  "format_hh_mm_a Invalid_Date = Inl RangeError"
| "format_hh_mm_a (Date_ms t) =
     (let h = nat ((t div 3600000) mod 24); m = nat ((t div 60000) mod 60)
      in Inr (pad2 (if h mod 12 = 0 then 12 else h mod 12) @ '':'' @ pad2 m @ '' '' @
              (if h < 12 then ''AM'' else ''PM'')))"

text \<open>\<^verbatim>\<open>new Date(x)\<close> for a number: \<^verbatim>\<open>NaN\<close> (\<open>None\<close>) and values beyond the range of
  time values are invalid, and a fraction is truncated towards zero.\<close>

fun new_Date_of_number :: "rat option \<Rightarrow> jsdate" where
  "new_Date_of_number None = Invalid_Date"
| "new_Date_of_number (Some x) =
     (if 8640000000000000 < \<bar>x\<bar> then Invalid_Date
      else Date_ms (if 0 \<le> x then \<lfloor>x\<rfloor> else \<lceil>x\<rceil>))"

text \<open>\<^verbatim>\<open>sum + time.getTime()\<close> in the reducer of the average.\<close>

fun add_time :: "jsdate \<Rightarrow> rat option \<Rightarrow> rat option" where
  "add_time (Date_ms t) (Some acc) = Some (dadd acc (of_int t))"
| "add_time _ _ = None"

text \<open>"Avg. Check In" of \<^verbatim>\<open>attendanceColumns\<close>.\<close>

definition avgCheckIn_cell :: "report_entry \<Rightarrow> js_error + string" where
  "avgCheckIn_cell row =
     (let checkIns = (case records row of None \<Rightarrow> [] | Some rs \<Rightarrow> List.map_filter checkInTime rs)
      in if length checkIns = 0 then Inr ''N/A''
         else format_hh_mm_a
                (new_Date_of_number
                   (map_option (\<lambda>acc. ddiv acc (of_nat (length checkIns)))
                      (fold add_time checkIns (Some 0)))))"

section \<open>Payroll page\<close>

definition calculateGrossSalary :: "rat \<Rightarrow> rat" where
  "calculateGrossSalary baseSalary = dadd baseSalary (dmul baseSalary lit_0_4)"

definition calculateHRA :: "rat \<Rightarrow> rat" where
  "calculateHRA baseSalary = dmul baseSalary lit_0_2"

definition calculateProvidentFund :: "rat \<Rightarrow> rat" where
  "calculateProvidentFund baseSalary = dmul baseSalary lit_0_12"

definition calculateTDS :: "rat \<Rightarrow> rat" where
  "calculateTDS gross = dmul gross lit_0_1"

definition calculateNetSalary :: "rat \<Rightarrow> rat \<Rightarrow> rat" where
  "calculateNetSalary gross deductions = dsub gross deductions"

text \<open>The net salary of an employee as every call site of the page computes it:
  \<^verbatim>\<open>calculateNetSalary(grossSalary, pf + tds)\<close> with \<^verbatim>\<open>basicSalary = employee.salary || 0\<close>,
  \<^verbatim>\<open>grossSalary = calculateGrossSalary(basicSalary)\<close>,
  \<^verbatim>\<open>pf = calculateProvidentFund(basicSalary)\<close> and \<^verbatim>\<open>tds = calculateTDS(grossSalary)\<close>.\<close>

definition page_netSalary :: "employee \<Rightarrow> rat" where
  "page_netSalary employee =
     calculateNetSalary (calculateGrossSalary (salary_or_0 employee))
       (dadd (calculateProvidentFund (salary_or_0 employee))
             (calculateTDS (calculateGrossSalary (salary_or_0 employee))))"

definition totalSalaryBudget :: "employee list \<Rightarrow> rat" where
  "totalSalaryBudget employees = fold (\<lambda>emp acc. dadd acc (salary_or_0 emp)) employees 0"

definition avgSalary :: "employee list \<Rightarrow> rat" where
  "avgSalary employees =
     (let activeEmployees = length employees
      in if activeEmployees > 0 then ddiv (totalSalaryBudget employees) (of_nat activeEmployees)
         else 0)"

section \<open>Leave page: \<^verbatim>\<open>calculateLeaveBalance\<close>\<close>

text \<open>
  \<^verbatim>\<open>eachDayOfInterval\<close> and \<^verbatim>\<open>isWeekend\<close> belong to the date-fns library. The first
  returns the start of every calendar day from the day of \<open>start\<close> to the day of \<open>end\<close>,
  and throws a \<^verbatim>\<open>RangeError\<close> when a date is invalid or \<open>start\<close> is after \<open>end\<close> (the
  guards \<^verbatim>\<open>end < start\<close> of the sibling functions \<^verbatim>\<open>calculateBusinessDays\<close> and
  \<^verbatim>\<open>calculateDuration\<close> are there for that). The second holds on Saturdays (6) and
  Sundays (0).
\<close>

fun eachDayOfInterval :: "jsdate \<Rightarrow> jsdate \<Rightarrow> js_error + jsdate list" where
  "eachDayOfInterval (Date_ms s) (Date_ms e) =
     (if s \<le> e then Inr (map (\<lambda>d. Date_ms (d * msPerDay)) [dayOf s .. dayOf e])
      else Inl RangeError)"
| "eachDayOfInterval _ _ = Inl RangeError"

definition isWeekend :: "jsdate \<Rightarrow> bool" where
  "isWeekend d = (getDay d = Some 0 \<or> getDay d = Some 6)"

record balance =
  total :: int
  used :: int
  remaining :: int

text \<open>The reducer over the approved requests of the type; an exception of
  \<^verbatim>\<open>eachDayOfInterval\<close> ends the whole call.\<close>

fun used_reduce :: "string \<Rightarrow> leave_request list \<Rightarrow> int \<Rightarrow> js_error + int" where
  "used_reduce type [] acc = Inr acc"
| "used_reduce type (request # requests) acc =
     (if type = ''halfday'' then used_reduce type requests (acc + 1)
      else case eachDayOfInterval (startDate request) (endDate request) of
             Inl err \<Rightarrow> Inl err
           | Inr allDays \<Rightarrow>
               used_reduce type requests
                 (acc + int (length (filter (\<lambda>day. \<not> isWeekend day) allDays))))"

definition calculateLeaveBalance :: "leave_request list \<Rightarrow> string \<Rightarrow> js_error + balance" where
  "calculateLeaveBalance myLeaveRequests type =
     (case used_reduce type
             (filter (\<lambda>request. lr_status request = ''approved'' \<and> lr_type request = type)
                myLeaveRequests) 0 of
        Inl err \<Rightarrow> Inl err
      | Inr u \<Rightarrow>
          Inr (if type = ''annual'' then \<lparr>total = 20, used = u, remaining = 20 - u\<rparr>
               else if type = ''sick'' then \<lparr>total = 10, used = u, remaining = 10 - u\<rparr>
               else if type = ''personal'' then \<lparr>total = 5, used = u, remaining = 5 - u\<rparr>
               else if type = ''halfday'' then \<lparr>total = 12, used = u, remaining = 12 - u\<rparr>
               else \<lparr>total = 0, used = 0, remaining = 0\<rparr>))"

section \<open>Server\<close>

subsection \<open>File storage\<close>

text \<open>The part of \<^verbatim>\<open>FileStorage.data\<close> the attendance routes read and write. Writing
  the data file is taken to succeed.\<close>

record storage =
  users :: "employee list"
  attendanceRecords :: "attendance list"
  currentAttendanceId :: int

record insert_attendance =
  ins_userId :: int
  ins_checkInTime :: "jsdate option"
  ins_checkOutTime :: "jsdate option"
  ins_date :: "jsdate option"
  ins_status :: "string option"
  ins_notes :: "string option"

text \<open>\<^verbatim>\<open>toDateString()\<close> prints the calendar day, and \<^verbatim>\<open>"Invalid Date"\<close> (\<open>None\<close>) for
  an invalid date.\<close>

fun toDateString :: "jsdate \<Rightarrow> int option" where
  "toDateString Invalid_Date = None"
| "toDateString (Date_ms t) = Some (dayOf t)"

definition getAttendanceByUser :: "storage \<Rightarrow> int \<Rightarrow> attendance list" where
  "getAttendanceByUser st uid = filter (\<lambda>a. userId a = uid) (attendanceRecords st)"

definition getAttendanceByDate :: "storage \<Rightarrow> jsdate \<Rightarrow> attendance list" where
  "getAttendanceByDate st d =
     filter (\<lambda>rcd. case date rcd of
                     None \<Rightarrow> False
                   | Some rd \<Rightarrow> toDateString rd = toDateString d)
       (attendanceRecords st)"

definition createAttendance :: "storage \<Rightarrow> insert_attendance \<Rightarrow> attendance \<times> storage" where
  "createAttendance st insertAttendance =
     (let a = \<lparr>att_id = currentAttendanceId st,
                userId = ins_userId insertAttendance,
                checkInTime = ins_checkInTime insertAttendance,
                checkOutTime = ins_checkOutTime insertAttendance,
                date = ins_date insertAttendance,
                status = (case ins_status insertAttendance of None \<Rightarrow> ''present'' | Some x \<Rightarrow> x),
                att_notes = ins_notes insertAttendance\<rparr>
      in (a, st\<lparr>attendanceRecords := attendanceRecords st @ [a],
                 currentAttendanceId := currentAttendanceId st + 1\<rparr>))"

subsection \<open>\<^verbatim>\<open>POST /api/attendance/check-in\<close>\<close>

datatype checkin_response =
  Unauthorized_401
| Already_checked_in_400
| Created_201 attendance

text \<open>The record the route asks the storage to create.\<close>

definition checkin_data :: "int \<Rightarrow> int \<Rightarrow> insert_attendance" where
  "checkin_data uid now =
     \<lparr>ins_userId = uid, ins_checkInTime = Some (Date_ms now), ins_checkOutTime = None,
      ins_date = Some (Date_ms now), ins_status = Some ''present'', ins_notes = Some []\<rparr>"

text \<open>\<open>auth\<close> is the id of the authenticated user, if any; \<open>now\<close> is \<^verbatim>\<open>new Date()\<close>.\<close>

definition check_in :: "storage \<Rightarrow> int option \<Rightarrow> int \<Rightarrow> checkin_response \<times> storage" where
  "check_in st auth now =
     (case auth of
        None \<Rightarrow> (Unauthorized_401, st)
      | Some uid \<Rightarrow>
          (case find (\<lambda>rcd. userId rcd = uid) (getAttendanceByDate st (Date_ms now)) of
             Some userTodayRecord \<Rightarrow>
               if checkInTime userTodayRecord \<noteq> None then (Already_checked_in_400, st)
               else (case createAttendance st (checkin_data uid now) of
                       (a, st') \<Rightarrow> (Created_201 a, st'))
           | None \<Rightarrow>
               (case createAttendance st (checkin_data uid now) of
                  (a, st') \<Rightarrow> (Created_201 a, st'))))"

subsection \<open>\<^verbatim>\<open>GET /api/reports/attendance\<close>\<close>

datatype report_response = Bad_request_400 | Ok_200 "report_entry list"

text \<open>The record filter of the route: \<^verbatim>\<open>recordDate && recordDate >= start && recordDate <= end\<close>.\<close>

definition inRange :: "jsdate \<Rightarrow> jsdate \<Rightarrow> attendance \<Rightarrow> bool" where
  "inRange rangeStart rangeEnd rcd =
     (case date rcd of
        None \<Rightarrow> False
      | Some recordDate \<Rightarrow> date_le rangeStart recordDate \<and> date_le recordDate rangeEnd)"

text \<open>The query parameters: a missing or empty \<^verbatim>\<open>startDate\<close> or \<^verbatim>\<open>endDate\<close> is \<open>None\<close>,
  otherwise the date \<^verbatim>\<open>new Date\<close> makes of it; \<^verbatim>\<open>departmentId\<close> is \<open>None\<close> when missing and
  otherwise what \<^verbatim>\<open>parseInt\<close> makes of it (\<open>Some None\<close> for \<^verbatim>\<open>NaN\<close>, which equals no
  department id). The entry of a user carries the id, names, position and department.\<close>

definition reports_attendance ::
  "storage \<Rightarrow> jsdate option \<Rightarrow> jsdate option \<Rightarrow> int option option \<Rightarrow> report_response" where
  "reports_attendance st startParam endParam deptParam =
     (case (startParam, endParam) of
        (Some rangeStart, Some rangeEnd) \<Rightarrow>
          Ok_200
            (List.map_filter
               (\<lambda>u. let filteredAttendance =
                           filter (inRange rangeStart rangeEnd) (getAttendanceByUser st (emp_id u))
                     in if length filteredAttendance > 0
                        then Some \<lparr>user = u\<lparr>salary := None\<rparr>,
                                   records = Some filteredAttendance,
                                   leaveRequests = None\<rparr>
                        else None)
               (case deptParam of
                  None \<Rightarrow> users st
                | Some d \<Rightarrow> filter (\<lambda>u. d \<noteq> None \<and> departmentId u = d) (users st)))
      | _ \<Rightarrow> Bad_request_400)"

section \<open>Notions of the specification\<close>

text \<open>The employee a row of a report is for.\<close>

fun row_emp_id :: "report_row \<Rightarrow> int" where
  "row_emp_id (Payroll_row p) = emp_id (p_user p)"
| "row_emp_id (Entry_row e) = emp_id (user e)"

text \<open>All attendance records of a report, across its employees.\<close>

definition all_records :: "report_entry list \<Rightarrow> attendance list" where
  "all_records reportData =
     concat (map (\<lambda>entry. case records entry of None \<Rightarrow> [] | Some rs \<Rightarrow> rs) reportData)"

text \<open>A record is dated on calendar day \<open>d\<close> when its date is a valid time stamp of that
  day.\<close>

definition dated_on :: "int \<Rightarrow> attendance \<Rightarrow> bool" where
  "dated_on d rcd = (\<exists>t. date rcd = Some (Date_ms t) \<and> t div 86400000 = d)"

text \<open>The fixed quotas, and the business days of an inclusive interval of calendar days:
  the days that are neither a Saturday (6) nor a Sunday (0), day 0 being a Thursday.\<close>

definition spec_quota :: "string \<Rightarrow> int" where
  "spec_quota t =
     (if t = ''annual'' then 20 else if t = ''sick'' then 10 else if t = ''personal'' then 5
      else if t = ''halfday'' then 12 else 0)"

definition business_day :: "int \<Rightarrow> bool" where
  "business_day d = ((d + 4) mod 7 \<noteq> 6 \<and> (d + 4) mod 7 \<noteq> 0)"

fun spec_business_days :: "jsdate \<Rightarrow> jsdate \<Rightarrow> nat" where
  "spec_business_days (Date_ms s) (Date_ms e) =
     card {d \<in> {s div 86400000 .. e div 86400000}. business_day d}"
| "spec_business_days _ _ = 0"

text \<open>What one approved request of the type consumes, and the sum over the approved
  requests of the type.\<close>

definition spec_units :: "string \<Rightarrow> leave_request \<Rightarrow> int" where
  "spec_units t r =
     (if t = ''halfday'' then 1 else int (spec_business_days (startDate r) (endDate r)))"

definition spec_used :: "leave_request list \<Rightarrow> string \<Rightarrow> int" where
  "spec_used reqs t =
     sum_list (map (spec_units t)
       (filter (\<lambda>r. lr_status r = ''approved'' \<and> lr_type r = t) reqs))"

text \<open>The invariant of the data model: both dates are valid and the end is not before
  the start.\<close>

definition well_formed :: "leave_request \<Rightarrow> bool" where
  "well_formed r = (\<exists>s e. startDate r = Date_ms s \<and> endDate r = Date_ms e \<and> s \<le> e)"

text \<open>The counter object of the leave chart with its five keys, the number of approved
  requests of a type, all leave requests of a report, and the types that have a bucket.\<close>

definition five_counts :: "int \<Rightarrow> int \<Rightarrow> int \<Rightarrow> int \<Rightarrow> int \<Rightarrow> js_object" where
  "five_counts a s p u ot =
     [(''annual'', Num a), (''sick'', Num s), (''personal'', Num p), (''unpaid'', Num u),
      (''other'', Num ot)]"

definition approved_of_type :: "string \<Rightarrow> leave_request list \<Rightarrow> int" where
  "approved_of_type t rs = int (length (filter (\<lambda>r. lr_status r = ''approved'' \<and> lr_type r = t) rs))"

definition all_requests :: "report_entry list \<Rightarrow> leave_request list" where
  "all_requests reportData =
     concat (map (\<lambda>entry. case leaveRequests entry of None \<Rightarrow> [] | Some rs \<Rightarrow> rs) reportData)"

definition bucket_type :: "string \<Rightarrow> bool" where
  "bucket_type t = (t = ''annual'' \<or> t = ''sick'' \<or> t = ''personal'' \<or> t = ''unpaid'' \<or> t = ''other'')"

section \<open>Example data\<close>

text \<open>Day 20000 is Friday 2024-10-04; \<open>1728000000000\<close> is its midnight.\<close>

definition emp1 :: employee where
  "emp1 = \<lparr>emp_id = 1, firstName = ''Asha'', lastName = ''Rao'', position = None,
     departmentId = Some 2, salary = Some 50000\<rparr>"

definition emp2 :: employee where
  "emp2 = \<lparr>emp_id = 2, firstName = ''Ravi'', lastName = ''Iyer'', position = None,
     departmentId = None, salary = None\<rparr>"

definition absent_today :: "int \<Rightarrow> attendance" where
  "absent_today t = \<lparr>att_id = 1, userId = 1, checkInTime = None, checkOutTime = None,
     date = Some (Date_ms t), status = ''absent'', att_notes = None\<rparr>"

text \<open>The store after an administrator has marked employee 1 absent for day 20000 through
  \<^verbatim>\<open>POST /api/attendance\<close>.\<close>

definition marked_absent :: storage where
  "marked_absent = \<lparr>users = [emp1, emp2], attendanceRecords = [absent_today 1728000000000],
     currentAttendanceId = 2\<rparr>"

definition halfday_leave :: leave_request where
  "halfday_leave = \<lparr>lr_id = 1, lr_userId = 1, lr_type = ''halfday'',
     startDate = Date_ms 1728000000000, endDate = Date_ms 1728000000000,
     lr_status = ''approved''\<rparr>"

text \<open>Monday 2024-10-07 to Wednesday 2024-10-09.\<close>

definition annual_leave :: leave_request where
  "annual_leave = \<lparr>lr_id = 2, lr_userId = 1, lr_type = ''annual'',
     startDate = Date_ms 1728259200000, endDate = Date_ms 1728432000000,
     lr_status = ''approved''\<rparr>"

text \<open>A leave request whose start date does not parse, and an attendance record whose
  check-in time does not parse (\<^verbatim>\<open>PUT /api/attendance/:id\<close> stores the request body
  without validating it).\<close>

definition garbled_leave :: leave_request where
  "garbled_leave = \<lparr>lr_id = 3, lr_userId = 1, lr_type = ''sick'',
     startDate = Invalid_Date, endDate = Date_ms 1728432000000, lr_status = ''approved''\<rparr>"

definition garbled_checkin :: attendance where
  "garbled_checkin = \<lparr>att_id = 7, userId = 1, checkInTime = Some Invalid_Date,
     checkOutTime = None, date = Some (Date_ms 1728000000000), status = ''present'',
     att_notes = None\<rparr>"

text \<open>Employee 1 present on day 20000 from 09:30, absent on day 19999, present on day
  19998 from 08:00.\<close>

definition week_entry :: report_entry where
  "week_entry = \<lparr>user = emp1,
     records = Some [present_at (Date_ms 1728034200000), absent_today 1727913600000,
                     present_at (Date_ms 1727856000000)],
     leaveRequests = None\<rparr>"

definition week_store :: storage where
  "week_store = \<lparr>users = [emp1, emp2],
     attendanceRecords = [present_at (Date_ms 1728034200000), absent_today 1727913600000],
     currentAttendanceId = 3\<rparr>"

text \<open>Thursday 2024-10-17 to Friday 2024-10-18, and Monday 2024-10-07 to Monday
  2024-10-14.\<close>

definition annual_leave2 :: leave_request where
  "annual_leave2 = \<lparr>lr_id = 4, lr_userId = 1, lr_type = ''annual'',
     startDate = Date_ms 1729123200000, endDate = Date_ms 1729209600000,
     lr_status = ''approved''\<rparr>"

definition personal_leave :: leave_request where
  "personal_leave = \<lparr>lr_id = 5, lr_userId = 1, lr_type = ''personal'',
     startDate = Date_ms 1728259200000, endDate = Date_ms 1728864000000,
     lr_status = ''approved''\<rparr>"

text \<open>An approved unpaid leave from Monday 2024-10-07 to Wednesday 2024-10-09, and an
  approved annual leave stored with its end (Monday 2024-10-07) before its start
  (Wednesday 2024-10-09): the server checks the types of the two dates, not their order.\<close>

definition unpaid_leave :: leave_request where
  "unpaid_leave = \<lparr>lr_id = 6, lr_userId = 1, lr_type = ''unpaid'',
     startDate = Date_ms 1728259200000, endDate = Date_ms 1728432000000,
     lr_status = ''approved''\<rparr>"

definition reversed_leave :: leave_request where
  "reversed_leave = \<lparr>lr_id = 7, lr_userId = 1, lr_type = ''annual'',
     startDate = Date_ms 1728432000000, endDate = Date_ms 1728259200000,
     lr_status = ''approved''\<rparr>"

definition with_salary :: "int \<Rightarrow> employee" where
  "with_salary s = \<lparr>emp_id = 1, firstName = ''Asha'', lastName = ''Rao'', position = None,
     departmentId = Some 2, salary = Some s\<rparr>"

section \<open>Lateness boundary\<close>

lemma lateInCell_eq_lateInChart: "lateInCell r = lateInChart r"
  by (simp add: lateInCell_def lateInChart_def split: option.splits)

lemma lateInChart_iff:
  "lateInChart r \<longleftrightarrow>
     status r = ''present'' \<and>
     (\<exists>t. checkInTime r = Some (Date_ms t) \<and> 9 \<le> (t div 3600000) mod 24 \<and> 1 \<le> (t div 60000) mod 60)"
proof (cases "checkInTime r")
  case None
  then show ?thesis by (simp add: lateInChart_def)
next
  case (Some d)
  then show ?thesis
    by (cases d) (auto simp: lateInChart_def)
qed

text \<open>
  C1. The lateness filters of the reports page at the boundary: a present record checked
  in at 09:00:00 or at 08:59:59 is not late and one checked in at 09:01:00 is late, but
  a check-in at 09:00:01, at 09:00:59 or at 10:00:00 is not counted as late either,
  although it is after 09:00:00: the filters ask for a minute-of-hour above zero instead
  of a time of day after nine o'clock.
\<close>

theorem late_filter_boundary:
  "\<not> lateInChart (present_at (clock 20000 9 0 0)) \<and>
   \<not> lateInChart (present_at (clock 20000 8 59 59)) \<and>
   lateInChart (present_at (clock 20000 9 1 0)) \<and>
   \<not> lateInChart (present_at (clock 20000 9 0 1)) \<and>
   \<not> lateInChart (present_at (clock 20000 9 0 59)) \<and>
   \<not> lateInChart (present_at (clock 20000 10 0 0)) \<and>
   \<not> lateInCell (present_at (clock 20000 9 0 1)) \<and>
   \<not> lateInCell (present_at (clock 20000 10 0 0))"
  by (simp add: lateInCell_def lateInChart_def present_at_def clock_def msPerDay_def)

theorem late_filter_boundary_witness:
  "status (present_at (clock 20000 10 0 0)) = ''present'' \<and>
   checkInTime (present_at (clock 20000 10 0 0)) = Some (Date_ms 1728036000000) \<and>
   lateInChart (present_at (clock 20000 10 0 0)) = False \<and>
   lateInChart (present_at (clock 20000 9 0 1)) = False"
  using late_filter_boundary by (simp add: present_at_def clock_def msPerDay_def)

section \<open>Guarded averages\<close>

lemma map_filter_all_None:
  "\<forall>x \<in> set xs. g x = None \<Longrightarrow> List.map_filter g xs = []"
  by (induction xs) (auto simp: List.map_filter_simps)

lemma avgCheckIn_no_checkins:
  assumes "\<forall>r \<in> set (case records row of None \<Rightarrow> [] | Some rs \<Rightarrow> rs). checkInTime r = None"
  shows "avgCheckIn_cell row = Inr ''N/A''"
proof (cases "records row")
  case None
  then show ?thesis by (simp add: avgCheckIn_cell_def List.map_filter_simps)
next
  case (Some rs)
  with assms have "List.map_filter checkInTime rs = []"
    by (simp add: map_filter_all_None)
  with Some show ?thesis by (simp add: avgCheckIn_cell_def)
qed

text \<open>
  C9. The averages are guarded against an empty denominator: for a row none of whose
  records has a check-in time stamp (or that has no record list at all) the "Avg. Check In"
  cell is the text N/A, and with no employees the average salary is 0.
\<close>

theorem averages_guarded:
  assumes "\<forall>r \<in> set (case records row of None \<Rightarrow> [] | Some rs \<Rightarrow> rs). checkInTime r = None"
  shows "avgCheckIn_cell row = Inr ''N/A'' \<and> avgSalary [] = 0"
  using avgCheckIn_no_checkins[OF assms] by (simp add: avgSalary_def)

theorem averages_guarded_witness:
  "checkInTime (absent_today 1728000000000) = None \<and>
   avgCheckIn_cell \<lparr>user = emp1, records = Some [absent_today 1728000000000], leaveRequests = None\<rparr>
     = Inr ''N/A'' \<and>
   avgSalary [] = 0"
  using averages_guarded[of "\<lparr>user = emp1, records = Some [absent_today 1728000000000], leaveRequests = None\<rparr>"]
  by (simp add: absent_today_def)

section \<open>Check-in\<close>

text \<open>What the route does, by the first record of the employee for today.\<close>

lemma check_in_cases:
  "check_in st (Some uid) now =
     (case find (\<lambda>rcd. userId rcd = uid) (getAttendanceByDate st (Date_ms now)) of
        Some r \<Rightarrow> if checkInTime r \<noteq> None then (Already_checked_in_400, st)
                  else (Created_201 (fst (createAttendance st (checkin_data uid now))),
                        snd (createAttendance st (checkin_data uid now)))
      | None \<Rightarrow> (Created_201 (fst (createAttendance st (checkin_data uid now))),
                  snd (createAttendance st (checkin_data uid now))))"
  by (simp add: check_in_def split: option.splits prod.splits)

lemma find_first_of_filter: "filter P xs = r # rs \<Longrightarrow> find P xs = Some r"
  by (induction xs) (auto split: if_splits)

text \<open>When the employee has at most one record for today, the route answers as the
  check intends: 400 and an unchanged store if that record has a check-in time.\<close>

lemma check_in_single_record:
  assumes "filter (\<lambda>rcd. userId rcd = uid) (getAttendanceByDate st (Date_ms now)) = [r]"
      and "checkInTime r \<noteq> None"
  shows "check_in st (Some uid) now = (Already_checked_in_400, st)"
proof -
  have "find (\<lambda>rcd. userId rcd = uid) (getAttendanceByDate st (Date_ms now)) = Some r"
    using assms(1) by (rule find_first_of_filter)
  with assms(2) show ?thesis by (simp add: check_in_cases)
qed

text \<open>
  C10. Checking in after having been marked absent: the route looks only at the first
  record of the employee for today. When that record has no check-in time, a second record
  of the employee for the same day is created; and a further check-in is answered 201
  again, although by then a record of the day has a check-in time, leaving three records
  of the employee for one day, two of them checked in.
\<close>

theorem check_in_twice:
  "length (filter (\<lambda>r. userId r = 1) (getAttendanceByDate marked_absent (Date_ms 1728032400000))) = 1 \<and>
   length (filter (\<lambda>r. userId r = 1)
     (getAttendanceByDate (snd (check_in marked_absent (Some 1) 1728032400000))
        (Date_ms 1728032400000))) = 2 \<and>
   fst (check_in marked_absent (Some 1) 1728032400000) =
     Created_201 \<lparr>att_id = 2, userId = 1, checkInTime = Some (Date_ms 1728032400000),
       checkOutTime = None, date = Some (Date_ms 1728032400000), status = ''present'',
       att_notes = Some []\<rparr> \<and>
   fst (check_in (snd (check_in marked_absent (Some 1) 1728032400000)) (Some 1) 1728036000000) =
     Created_201 \<lparr>att_id = 3, userId = 1, checkInTime = Some (Date_ms 1728036000000),
       checkOutTime = None, date = Some (Date_ms 1728036000000), status = ''present'',
       att_notes = Some []\<rparr> \<and>
   length (filter (\<lambda>r. userId r = 1 \<and> checkInTime r \<noteq> None)
     (getAttendanceByDate
        (snd (check_in (snd (check_in marked_absent (Some 1) 1728032400000)) (Some 1) 1728036000000))
        (Date_ms 1728036000000))) = 2"
  by (simp add: check_in_def marked_absent_def absent_today_def getAttendanceByDate_def
      createAttendance_def checkin_data_def dayOf_def msPerDay_def Let_def)

section \<open>Leave-type chart\<close>

lemma incr_bucket:
  assumes "bucket_type t"
  shows "obj_incr (five_counts a s p u ot) t =
           five_counts (a + (if t = ''annual'' then 1 else 0)) (s + (if t = ''sick'' then 1 else 0))
             (p + (if t = ''personal'' then 1 else 0)) (u + (if t = ''unpaid'' then 1 else 0))
             (ot + (if t = ''other'' then 1 else 0))"
  using assms unfolding bucket_type_def
  by (elim disjE) (simp_all add: obj_incr_def five_counts_def)

lemma approved_of_type_Cons:
  "approved_of_type t (r # rs) =
     (if lr_status r = ''approved'' \<and> lr_type r = t then 1 else 0) + approved_of_type t rs"
  by (simp add: approved_of_type_def)

lemma fold_requests:
  assumes "\<forall>r \<in> set rs. lr_status r = ''approved'' \<longrightarrow> bucket_type (lr_type r)"
  shows "fold (\<lambda>request c. if lr_status request = ''approved'' then obj_incr c (lr_type request) else c)
           rs (five_counts a s p u ot) =
         five_counts (a + approved_of_type ''annual'' rs) (s + approved_of_type ''sick'' rs)
           (p + approved_of_type ''personal'' rs) (u + approved_of_type ''unpaid'' rs)
           (ot + approved_of_type ''other'' rs)"
  using assms
proof (induction rs arbitrary: a s p u ot)
  case Nil
  then show ?case by (simp add: approved_of_type_def)
next
  case (Cons r rs)
  show ?case
  proof (cases "lr_status r = ''approved''")
    case True
    with Cons.prems have b: "bucket_type (lr_type r)" by simp
    from Cons.prems have rest: "\<forall>r \<in> set rs. lr_status r = ''approved'' \<longrightarrow> bucket_type (lr_type r)"
      by simp
    have "fold (\<lambda>request c. if lr_status request = ''approved'' then obj_incr c (lr_type request) else c)
           (r # rs) (five_counts a s p u ot) =
          fold (\<lambda>request c. if lr_status request = ''approved'' then obj_incr c (lr_type request) else c)
           rs (obj_incr (five_counts a s p u ot) (lr_type r))"
      using True by simp
    also have "\<dots> = five_counts (a + approved_of_type ''annual'' (r # rs))
           (s + approved_of_type ''sick'' (r # rs))
           (p + approved_of_type ''personal'' (r # rs)) (u + approved_of_type ''unpaid'' (r # rs))
           (ot + approved_of_type ''other'' (r # rs))"
      unfolding incr_bucket[OF b] Cons.IH[OF rest] approved_of_type_Cons
      using True by (simp add: add.assoc)
    finally show ?thesis .
  next
    case False
    from Cons.prems have rest: "\<forall>r \<in> set rs. lr_status r = ''approved'' \<longrightarrow> bucket_type (lr_type r)"
      by simp
    show ?thesis
      using False by (simp add: Cons.IH[OF rest] approved_of_type_Cons)
  qed
qed

lemma fold_entries:
  assumes "\<forall>r \<in> set (all_requests reportData). lr_status r = ''approved'' \<longrightarrow> bucket_type (lr_type r)"
  shows "fold count_entry reportData (five_counts a s p u ot) =
         five_counts (a + approved_of_type ''annual'' (all_requests reportData))
           (s + approved_of_type ''sick'' (all_requests reportData))
           (p + approved_of_type ''personal'' (all_requests reportData))
           (u + approved_of_type ''unpaid'' (all_requests reportData))
           (ot + approved_of_type ''other'' (all_requests reportData))"
  using assms
proof (induction reportData arbitrary: a s p u ot)
  case Nil
  then show ?case by (simp add: all_requests_def approved_of_type_def)
next
  case (Cons e es)
  from Cons.prems have rest: "\<forall>r \<in> set (all_requests es). lr_status r = ''approved'' \<longrightarrow> bucket_type (lr_type r)"
    by (simp add: all_requests_def)
  show ?case
  proof (cases "leaveRequests e")
    case None
    then have "count_entry e (five_counts a s p u ot) = five_counts a s p u ot"
      by (simp add: count_entry_def)
    moreover from None have "all_requests (e # es) = all_requests es"
      by (simp add: all_requests_def)
    ultimately show ?thesis
      using Cons.IH[OF rest] by simp
  next
    case (Some rs)
    with Cons.prems have here: "\<forall>r \<in> set rs. lr_status r = ''approved'' \<longrightarrow> bucket_type (lr_type r)"
      by (simp add: all_requests_def)
    have app: "approved_of_type t (rs @ xs) = approved_of_type t rs + approved_of_type t xs" for t xs
      by (simp add: approved_of_type_def)
    from Some have step: "count_entry e (five_counts a s p u ot) =
        five_counts (a + approved_of_type ''annual'' rs) (s + approved_of_type ''sick'' rs)
           (p + approved_of_type ''personal'' rs) (u + approved_of_type ''unpaid'' rs)
           (ot + approved_of_type ''other'' rs)"
      by (simp add: count_entry_def fold_requests[OF here])
    from Some have cat: "all_requests (e # es) = rs @ all_requests es"
      by (simp add: all_requests_def)
    show ?thesis
      by (simp only: fold_simps step cat app Cons.IH[OF rest] add.assoc)
  qed
qed

lemma upper_chars:
  "toUpperCase_char CHR ''a'' = CHR ''A''" "toUpperCase_char CHR ''s'' = CHR ''S''"
  "toUpperCase_char CHR ''p'' = CHR ''P''" "toUpperCase_char CHR ''u'' = CHR ''U''"
  "toUpperCase_char CHR ''o'' = CHR ''O''"
  by code_simp+

text \<open>On a non-empty report whose approved requests all have one of the five bucket
  types, the chart has exactly the five slices, each with the number of approved requests
  of its type.\<close>

lemma five_buckets:
  assumes "reportData \<noteq> []"
      and "\<forall>r \<in> set (all_requests reportData). lr_status r = ''approved'' \<longrightarrow> bucket_type (lr_type r)"
  shows "prepareLeaveChartData Leave reportData =
     [\<lparr>name = ''Annual'', pie_value = Num (approved_of_type ''annual'' (all_requests reportData))\<rparr>,
      \<lparr>name = ''Sick'', pie_value = Num (approved_of_type ''sick'' (all_requests reportData))\<rparr>,
      \<lparr>name = ''Personal'', pie_value = Num (approved_of_type ''personal'' (all_requests reportData))\<rparr>,
      \<lparr>name = ''Unpaid'', pie_value = Num (approved_of_type ''unpaid'' (all_requests reportData))\<rparr>,
      \<lparr>name = ''Other'', pie_value = Num (approved_of_type ''other'' (all_requests reportData))\<rparr>]"
proof -
  have init: "leaveTypeCounts0 = five_counts 0 0 0 0 0"
    by (simp add: leaveTypeCounts0_def five_counts_def)
  show ?thesis
    using assms(1)
    by (simp add: prepareLeaveChartData_def init fold_entries[OF assms(2)])
       (simp add: five_counts_def upper_chars)
qed

text \<open>
  C4. An approved half-day request is not dropped from the leave-type chart: the counter
  object has no \<^verbatim>\<open>halfday\<close> key, so incrementing it stores \<^verbatim>\<open>NaN\<close> under a new key, and
  the chart gets a sixth slice, Halfday, whose value is \<^verbatim>\<open>NaN\<close>. The five buckets
  themselves are not changed by it.
\<close>

theorem halfday_adds_NaN_slice:
  "prepareLeaveChartData Leave
     [\<lparr>user = emp1, records = None, leaveRequests = Some [annual_leave, halfday_leave]\<rparr>] =
   [\<lparr>name = ''Annual'', pie_value = Num 1\<rparr>, \<lparr>name = ''Sick'', pie_value = Num 0\<rparr>,
    \<lparr>name = ''Personal'', pie_value = Num 0\<rparr>, \<lparr>name = ''Unpaid'', pie_value = Num 0\<rparr>,
    \<lparr>name = ''Other'', pie_value = Num 0\<rparr>, \<lparr>name = ''Halfday'', pie_value = NaN\<rparr>]"
  by code_simp

theorem halfday_adds_NaN_slice_witness:
  "length (prepareLeaveChartData Leave
     [\<lparr>user = emp1, records = None, leaveRequests = Some [annual_leave, halfday_leave]\<rparr>]) = 6 \<and>
   pie_value (last (prepareLeaveChartData Leave
     [\<lparr>user = emp1, records = None, leaveRequests = Some [annual_leave, halfday_leave]\<rparr>])) = NaN"
  using halfday_adds_NaN_slice by simp

section \<open>Attendance chart\<close>

lemma onDay_iff: "onDay d r = dated_on d r"
  by (auto simp: onDay_def dated_on_def dayOf_def msPerDay_def split: option.splits jsdate.splits)

lemma dayRecords_filter: "dayRecords reportData d = filter (dated_on d) (all_records reportData)"
proof (induction reportData)
  case Nil
  then show ?case by (simp add: dayRecords_def all_records_def)
next
  case (Cons e es)
  have "onDay d = dated_on d"
    by (rule ext) (simp add: onDay_iff)
  then have "filter (onDay d) rs = filter (dated_on d) rs" for rs
    by simp
  with Cons show ?case
    by (cases "records e") (simp_all add: dayRecords_def all_records_def)
qed

lemma dayOf_subDays: "dayOf (subDays today n) = dayOf today - n"
proof -
  have "(today + (- n) * 86400000) div 86400000 = (- n) + today div 86400000"
    using div_mult_self1[of "86400000::int" today "- n"] by (simp add: mult.commute)
  then show ?thesis by (simp add: dayOf_def subDays_def msPerDay_def)
qed

lemma chart_nth:
  assumes "reportData \<noteq> []" "i < 7"
  shows "prepareAttendanceChartData Attendance reportData today ! i =
           chart_row_of reportData (subDays today (6 - int i))"
  using assms by (simp add: prepareAttendanceChartData_def del: upt_Suc)

text \<open>
  C7, as the code has it. When the report data is empty the chart has no rows at all.
  Otherwise it has exactly 7 rows, one per calendar day from 6 days before today through
  today, whatever range was selected; the present, absent and late values of a row count
  the records of the report data (those the server selected for the chosen range) that
  are dated on that day, across all employees, with the status present, the status
  absent, and the lateness filter of the page.
\<close>

theorem attendance_chart_rows:
  assumes "reportData \<noteq> []"
  shows "length (prepareAttendanceChartData Attendance reportData today) = 7 \<and>
         (\<forall>i<7. prepareAttendanceChartData Attendance reportData today ! i =
            \<lparr>row_date = today div 86400000 - 6 + int i,
             present = length (filter (\<lambda>r. dated_on (today div 86400000 - 6 + int i) r \<and> status r = ''present'')
                         (all_records reportData)),
             absent = length (filter (\<lambda>r. dated_on (today div 86400000 - 6 + int i) r \<and> status r = ''absent'')
                         (all_records reportData)),
             late = length (filter (\<lambda>r. dated_on (today div 86400000 - 6 + int i) r \<and> lateInChart r)
                         (all_records reportData))\<rparr>) \<and>
         prepareAttendanceChartData Attendance [] today = []"
proof -
  have len: "length (prepareAttendanceChartData Attendance reportData today) = 7"
    using assms by (simp add: prepareAttendanceChartData_def)
  have day: "dayOf (subDays today (6 - int i)) = today div 86400000 - 6 + int i" for i
    by (simp add: dayOf_subDays) (simp add: dayOf_def msPerDay_def)
  have row: "chart_row_of reportData (subDays today (6 - int i)) =
            \<lparr>row_date = today div 86400000 - 6 + int i,
             present = length (filter (\<lambda>r. dated_on (today div 86400000 - 6 + int i) r \<and> status r = ''present'')
                         (all_records reportData)),
             absent = length (filter (\<lambda>r. dated_on (today div 86400000 - 6 + int i) r \<and> status r = ''absent'')
                         (all_records reportData)),
             late = length (filter (\<lambda>r. dated_on (today div 86400000 - 6 + int i) r \<and> lateInChart r)
                         (all_records reportData))\<rparr>" for i
    unfolding chart_row_of_def Let_def day dayRecords_filter
    by (simp add: conj_commute)
  have empty: "prepareAttendanceChartData Attendance [] today = []"
    by (simp add: prepareAttendanceChartData_def)
  from len row empty chart_nth[OF assms] show ?thesis by simp
qed

theorem attendance_chart_rows_witness:
  "[week_entry] \<noteq> [] \<and>
   length (prepareAttendanceChartData Attendance [week_entry] 1728054000000) = 7 \<and>
   prepareAttendanceChartData Attendance [week_entry] 1728054000000 ! 6 =
     \<lparr>row_date = 20000, present = 1, absent = 0, late = 1\<rparr> \<and>
   prepareAttendanceChartData Attendance [week_entry] 1728054000000 ! 5 =
     \<lparr>row_date = 19999, present = 0, absent = 1, late = 0\<rparr>"
proof -
  have ne: "[week_entry] \<noteq> []" by simp
  note rows = attendance_chart_rows[OF ne, of 1728054000000]
  from rows have r6: "prepareAttendanceChartData Attendance [week_entry] 1728054000000 ! 6 =
     \<lparr>row_date = 20000, present = 1, absent = 0, late = 1\<rparr>"
    by (simp add: all_records_def week_entry_def dated_on_def present_at_def absent_today_def
        lateInChart_def)
  from rows have r5: "prepareAttendanceChartData Attendance [week_entry] 1728054000000 ! 5 =
     \<lparr>row_date = 19999, present = 0, absent = 1, late = 0\<rparr>"
    by (simp add: all_records_def week_entry_def dated_on_def present_at_def absent_today_def
        lateInChart_def)
  from rows r5 r6 show ?thesis by simp
qed

text \<open>The claim as stated, seven rows for every input, fails on an empty report.\<close>

theorem attendance_chart_empty_counterexample:
  "\<not> (\<forall>reportData today. length (prepareAttendanceChartData Attendance reportData today) = 7)"
proof
  assume "\<forall>reportData today. length (prepareAttendanceChartData Attendance reportData today) = 7"
  then have "length (prepareAttendanceChartData Attendance [] 0) = 7" by blast
  then show False by (simp add: prepareAttendanceChartData_def)
qed

section \<open>Malformed dates\<close>

text \<open>The attendance chart does skip a record whose date does not parse.\<close>

lemma chart_skips_unparseable_date:
  assumes "date r = Some Invalid_Date"
  shows "r \<notin> set (dayRecords reportData d)"
  using assms by (simp add: dayRecords_filter dated_on_def)

text \<open>
  C5. A record with a date that does not parse is not always skipped. The "Total Days"
  cell of the leave table adds the day count of every approved request without a guard,
  so one request with an unparseable start date turns the total into \<^verbatim>\<open>NaN\<close> (here
  instead of the 3 days of the other request); and the "Avg. Check In" cell formats the
  mean of the check-in times without a guard, so one unparseable check-in time makes
  \<^verbatim>\<open>format\<close> throw a \<^verbatim>\<open>RangeError\<close> that nothing catches.
\<close>

theorem malformed_dates_not_skipped:
  "totalDays_cell \<lparr>user = emp1, records = None, leaveRequests = Some [annual_leave]\<rparr> = Num 3 \<and>
   totalDays_cell \<lparr>user = emp1, records = None, leaveRequests = Some [annual_leave, garbled_leave]\<rparr> = NaN \<and>
   avgCheckIn_cell \<lparr>user = emp1, records = Some [garbled_checkin], leaveRequests = None\<rparr> = Inl RangeError"
  by (simp add: totalDays_cell_def leave_days_def annual_leave_def garbled_leave_def
      avgCheckIn_cell_def garbled_checkin_def msPerDay_def List.map_filter_simps)

section \<open>One row per employee\<close>

lemma row_ids:
  "map row_emp_id (allEmployeeReportData reportType employees reportData) = map emp_id employees"
proof -
  have "row_emp_id (case find (\<lambda>data. emp_id (user data) = emp_id e) reportData of
                      Some existingData \<Rightarrow> Entry_row existingData
                    | None \<Rightarrow> Entry_row (default_entry reportType e)) = emp_id e" for e
  proof (cases "find (\<lambda>data. emp_id (user data) = emp_id e) reportData")
    case None
    then show ?thesis by (simp add: default_entry_def)
  next
    case (Some x)
    then have "emp_id (user x) = emp_id e" by (auto simp: find_Some_iff)
    with Some show ?thesis by simp
  qed
  then show ?thesis
    by (simp add: allEmployeeReportData_def payroll_of_def)
qed

lemma count_one:
  assumes "distinct (map f xs)" "x \<in> set xs"
  shows "length (filter (\<lambda>y. f y = f x) xs) = 1"
  using assms
proof (induction xs)
  case Nil
  then show ?case by simp
next
  case (Cons a xs)
  show ?case
  proof (cases "a = x")
    case True
    with Cons.prems have "f x \<notin> f ` set xs" by simp
    then have "\<forall>y \<in> set xs. f y \<noteq> f x" by (metis image_eqI)
    then have "filter (\<lambda>y. f y = f x) xs = []" by (simp add: filter_empty_conv)
    with True show ?thesis by simp
  next
    case False
    with Cons.prems have "x \<in> set xs" "f a \<noteq> f x" by auto
    with Cons show ?thesis by simp
  qed
qed

lemma exactly_one_row:
  assumes "distinct (map emp_id employees)" "employee \<in> set employees"
  shows "length (filter (\<lambda>row. row_emp_id row = emp_id employee)
           (allEmployeeReportData reportType employees reportData)) = 1"
proof -
  have "length (filter (\<lambda>row. row_emp_id row = emp_id employee)
           (allEmployeeReportData reportType employees reportData))
      = length (filter (\<lambda>i. i = emp_id employee)
           (map row_emp_id (allEmployeeReportData reportType employees reportData)))"
    by (simp add: filter_map comp_def)
  also have "\<dots> = length (filter (\<lambda>e. emp_id e = emp_id employee) employees)"
    by (simp add: row_ids filter_map comp_def)
  also have "\<dots> = 1" using count_one[OF assms] .
  finally show ?thesis .
qed

lemma in_map_filter:
  "y \<in> set (List.map_filter g xs) \<longleftrightarrow> (\<exists>x \<in> set xs. g x = Some y)"
  by (induction xs) (auto simp: List.map_filter_simps split: option.splits)

text \<open>The server sends an entry only for a user with a record in the range.\<close>

lemma server_entry_has_record:
  assumes "reports_attendance st (Some rangeStart) (Some rangeEnd) dept = Ok_200 reportData"
      and "entry \<in> set reportData"
  shows "\<exists>a \<in> set (attendanceRecords st). userId a = emp_id (user entry) \<and> inRange rangeStart rangeEnd a"
proof -
  define pick where "pick = (\<lambda>u. let filteredAttendance =
                           filter (inRange rangeStart rangeEnd) (getAttendanceByUser st (emp_id u))
                     in if length filteredAttendance > 0
                        then Some \<lparr>user = u\<lparr>salary := None\<rparr>,
                                   records = Some filteredAttendance,
                                   leaveRequests = None\<rparr>
                        else None)"
  from assms(1) obtain us where "reportData = List.map_filter pick us"
    by (auto simp: reports_attendance_def pick_def)
  with assms(2) obtain u where u: "pick u = Some entry"
    by (auto simp: in_map_filter)
  then have ne: "filter (inRange rangeStart rangeEnd) (getAttendanceByUser st (emp_id u)) \<noteq> []"
    by (auto simp: pick_def Let_def split: if_splits)
  from u have id: "emp_id (user entry) = emp_id u"
    by (auto simp: pick_def Let_def split: if_splits)
  from ne obtain a where "a \<in> set (getAttendanceByUser st (emp_id u))" "inRange rangeStart rangeEnd a"
    by (auto simp: filter_empty_conv)
  with id show ?thesis
    by (auto simp: getAttendanceByUser_def)
qed

text \<open>
  C6. The rows the reports page builds from the answer of the attendance report route:
  every employee of the (duplicate-free) employee list has exactly one row, and an
  employee without any attendance record in the date range, for whom the server sends
  nothing, has the row made of the employee and an empty list of records.
\<close>

theorem every_employee_one_entry:
  assumes "reports_attendance st (Some rangeStart) (Some rangeEnd) dept = Ok_200 reportData"
      and "distinct (map emp_id employees)"
      and "employee \<in> set employees"
  shows "length (filter (\<lambda>row. row_emp_id row = emp_id employee)
           (allEmployeeReportData Attendance employees reportData)) = 1 \<and>
         ((\<forall>a \<in> set (attendanceRecords st).
              userId a = emp_id employee \<longrightarrow> \<not> inRange rangeStart rangeEnd a) \<longrightarrow>
          Entry_row \<lparr>user = employee, records = Some [], leaveRequests = None\<rparr>
            \<in> set (allEmployeeReportData Attendance employees reportData))"
proof (intro conjI impI)
  show "length (filter (\<lambda>row. row_emp_id row = emp_id employee)
           (allEmployeeReportData Attendance employees reportData)) = 1"
    using exactly_one_row[OF assms(2,3)] .
next
  assume none: "\<forall>a \<in> set (attendanceRecords st).
              userId a = emp_id employee \<longrightarrow> \<not> inRange rangeStart rangeEnd a"
  have "find (\<lambda>data. emp_id (user data) = emp_id employee) reportData = None"
  proof (rule ccontr)
    assume "find (\<lambda>data. emp_id (user data) = emp_id employee) reportData \<noteq> None"
    then obtain entry where "entry \<in> set reportData" "emp_id (user entry) = emp_id employee"
      by (auto simp: find_None_iff)
    with server_entry_has_record[OF assms(1)] none show False by metis
  qed
  then have "Entry_row (default_entry Attendance employee)
               \<in> set (allEmployeeReportData Attendance employees reportData)"
    using assms(3) by (force simp: allEmployeeReportData_def)
  then show "Entry_row \<lparr>user = employee, records = Some [], leaveRequests = None\<rparr>
            \<in> set (allEmployeeReportData Attendance employees reportData)"
    by (simp add: default_entry_def)
qed

theorem every_employee_one_entry_witness:
  "reports_attendance week_store (Some (Date_ms 1727740800000)) (Some (Date_ms 1728086400000)) None =
     Ok_200 [\<lparr>user = emp1\<lparr>salary := None\<rparr>,
              records = Some [present_at (Date_ms 1728034200000), absent_today 1727913600000],
              leaveRequests = None\<rparr>] \<and>
   distinct (map emp_id [emp1, emp2]) \<and>
   emp2 \<in> set [emp1, emp2] \<and>
   length (filter (\<lambda>row. row_emp_id row = emp_id emp2)
     (allEmployeeReportData Attendance [emp1, emp2]
        [\<lparr>user = emp1\<lparr>salary := None\<rparr>,
          records = Some [present_at (Date_ms 1728034200000), absent_today 1727913600000],
          leaveRequests = None\<rparr>])) = 1 \<and>
   Entry_row \<lparr>user = emp2, records = Some [], leaveRequests = None\<rparr>
     \<in> set (allEmployeeReportData Attendance [emp1, emp2]
        [\<lparr>user = emp1\<lparr>salary := None\<rparr>,
          records = Some [present_at (Date_ms 1728034200000), absent_today 1727913600000],
          leaveRequests = None\<rparr>])"
proof -
  have srv: "reports_attendance week_store (Some (Date_ms 1727740800000)) (Some (Date_ms 1728086400000)) None =
     Ok_200 [\<lparr>user = emp1\<lparr>salary := None\<rparr>,
              records = Some [present_at (Date_ms 1728034200000), absent_today 1727913600000],
              leaveRequests = None\<rparr>]"
    by (simp add: reports_attendance_def week_store_def List.map_filter_simps
        getAttendanceByUser_def inRange_def present_at_def absent_today_def emp1_def emp2_def)
  have dist: "distinct (map emp_id [emp1, emp2])"
    by (simp add: emp1_def emp2_def)
  have mem: "emp2 \<in> set [emp1, emp2]" by simp
  have none: "\<forall>a \<in> set (attendanceRecords week_store).
      userId a = emp_id emp2 \<longrightarrow> \<not> inRange (Date_ms 1727740800000) (Date_ms 1728086400000) a"
    by (simp add: week_store_def present_at_def absent_today_def emp2_def)
  from every_employee_one_entry[OF srv dist mem] none srv dist mem show ?thesis
    by blast
qed

section \<open>Leave balance\<close>

lemma isWeekend_day: "isWeekend (Date_ms (d * msPerDay)) = (\<not> business_day d)"
  by (auto simp: isWeekend_def business_day_def msPerDay_def)

lemma count_business_days:
  "length (filter (\<lambda>day. \<not> isWeekend day) (map (\<lambda>d. Date_ms (d * msPerDay)) [a..b])) =
     card {d \<in> {a..b}. business_day d}"
proof -
  have "filter (\<lambda>day. \<not> isWeekend day) (map (\<lambda>d. Date_ms (d * msPerDay)) [a..b]) =
        map (\<lambda>d. Date_ms (d * msPerDay)) (filter business_day [a..b])"
    by (simp add: filter_map comp_def isWeekend_day)
  then have "length (filter (\<lambda>day. \<not> isWeekend day) (map (\<lambda>d. Date_ms (d * msPerDay)) [a..b])) =
        length (filter business_day [a..b])"
    by simp
  also have "\<dots> = card (set (filter business_day [a..b]))"
    by (rule distinct_card[symmetric]) simp
  also have "\<dots> = card {d \<in> {a..b}. business_day d}"
    by (rule arg_cong[where f = card]) auto
  finally show ?thesis .
qed

lemma eachDay_well_formed:
  assumes "well_formed r"
  shows "\<exists>days. eachDayOfInterval (startDate r) (endDate r) = Inr days \<and>
           int (length (filter (\<lambda>day. \<not> isWeekend day) days)) =
             int (spec_business_days (startDate r) (endDate r))"
proof -
  from assms obtain s e where se: "startDate r = Date_ms s" "endDate r = Date_ms e" "s \<le> e"
    by (auto simp: well_formed_def)
  then show ?thesis
    using count_business_days[of "dayOf s" "dayOf e"]
    by (simp add: dayOf_def msPerDay_def)
qed

lemma eachDay_ill_formed:
  assumes "\<not> well_formed r"
  shows "eachDayOfInterval (startDate r) (endDate r) = Inl RangeError"
  using assms
  by (cases "startDate r"; cases "endDate r") (auto simp: well_formed_def)

lemma used_reduce_eq:
  "used_reduce t rs acc =
     (if t = ''halfday'' \<or> (\<forall>r \<in> set rs. well_formed r)
      then Inr (acc + sum_list (map (spec_units t) rs)) else Inl RangeError)"
proof (induction rs arbitrary: acc)
  case Nil
  then show ?case by simp
next
  case (Cons r rs)
  show ?case
  proof (cases "t = ''halfday''")
    case True
    then have "spec_units t r = 1" by (simp add: spec_units_def)
    with Cons True show ?thesis by simp
  next
    case notHalf: False
    then have head: "spec_units t r = int (spec_business_days (startDate r) (endDate r))"
      by (simp add: spec_units_def)
    show ?thesis
    proof (cases "well_formed r")
      case True
      from eachDay_well_formed[OF True] obtain days where
        "eachDayOfInterval (startDate r) (endDate r) = Inr days"
        "int (length (filter (\<lambda>day. \<not> isWeekend day) days)) =
             int (spec_business_days (startDate r) (endDate r))"
        by blast
      with Cons notHalf True head show ?thesis by simp
    next
      case False
      with eachDay_ill_formed[OF False] notHalf show ?thesis by simp
    qed
  qed
qed

text \<open>What the claim says of a type without a quota and of a request that ends before
  it starts: the code answers an approved unpaid request of three business days with
  zeros, and throws on the reversed request.\<close>

lemma unpaid_spec_used: "spec_used [unpaid_leave] ''unpaid'' = 3"
proof -
  have wf: "\<forall>r \<in> set [unpaid_leave]. well_formed r"
    by (simp add: well_formed_def unpaid_leave_def)
  have "used_reduce ''unpaid'' [unpaid_leave] 0 = Inr 3"
    by code_simp
  with wf have "sum_list (map (spec_units ''unpaid'') [unpaid_leave]) = 3"
    by (simp only: used_reduce_eq) simp
  then show ?thesis
    by (simp add: spec_used_def unpaid_leave_def)
qed

text \<open>
  C3, as the code has it. For every leave type and every request list whose counted
  requests (approved, of the type) have valid dates with the end not before the start
  (half-day requests need not): for each of the four types with a quota, total is the
  fixed quota (annual 20, sick 10, personal 5, halfday 12), used is the sum over the
  approved requests of the type of 1 for halfday and of the number of days that are
  neither Saturday nor Sunday in the inclusive interval otherwise, and remaining is total
  minus used, an integer that is not clamped and may be negative; for every other type
  (unpaid, other) total, used and remaining are all 0, whatever was approved.
\<close>

theorem leave_balance:
  assumes "type \<noteq> ''halfday'' \<longrightarrow>
             (\<forall>r \<in> set reqs. lr_status r = ''approved'' \<and> lr_type r = type \<longrightarrow> well_formed r)"
  shows "calculateLeaveBalance reqs type =
           Inr (if type \<in> {''annual'', ''sick'', ''personal'', ''halfday''}
                then \<lparr>total = spec_quota type, used = spec_used reqs type,
                      remaining = spec_quota type - spec_used reqs type\<rparr>
                else \<lparr>total = 0, used = 0, remaining = 0\<rparr>)"
proof -
  have red: "used_reduce type
          (filter (\<lambda>request. lr_status request = ''approved'' \<and> lr_type request = type) reqs) 0 =
        Inr (spec_used reqs type)"
    using assms by (auto simp: used_reduce_eq spec_used_def)
  show ?thesis
  proof (cases "type \<in> {''annual'', ''sick'', ''personal'', ''halfday''}")
    case True
    with red show ?thesis
      by (auto simp: calculateLeaveBalance_def spec_quota_def)
  next
    case False
    with red show ?thesis
      by (simp add: calculateLeaveBalance_def)
  qed
qed

theorem leave_balance_witness:
  "well_formed annual_leave \<and> well_formed personal_leave \<and> well_formed unpaid_leave \<and>
   calculateLeaveBalance [annual_leave, halfday_leave, personal_leave, unpaid_leave] ''annual'' =
     Inr \<lparr>total = 20, used = 3, remaining = 17\<rparr> \<and>
   spec_used [annual_leave, halfday_leave, personal_leave, unpaid_leave] ''annual'' = 3 \<and>
   calculateLeaveBalance [annual_leave, halfday_leave, personal_leave, unpaid_leave] ''personal'' =
     Inr \<lparr>total = 5, used = 6, remaining = - 1\<rparr> \<and>
   spec_used [annual_leave, halfday_leave, personal_leave, unpaid_leave] ''personal'' = 6 \<and>
   calculateLeaveBalance [annual_leave, halfday_leave, personal_leave, unpaid_leave] ''unpaid'' =
     Inr \<lparr>total = 0, used = 0, remaining = 0\<rparr>"
proof -
  let ?reqs = "[annual_leave, halfday_leave, personal_leave, unpaid_leave]"
  have wf: "well_formed annual_leave" "well_formed personal_leave" "well_formed unpaid_leave"
    by (simp_all add: well_formed_def annual_leave_def personal_leave_def unpaid_leave_def)
  have hd: "lr_type halfday_leave = ''halfday''"
    by (simp add: halfday_leave_def)
  have ev1: "calculateLeaveBalance ?reqs ''annual'' = Inr \<lparr>total = 20, used = 3, remaining = 17\<rparr>"
    by code_simp
  have ev2: "calculateLeaveBalance ?reqs ''personal'' = Inr \<lparr>total = 5, used = 6, remaining = - 1\<rparr>"
    by code_simp
  have "calculateLeaveBalance ?reqs ''annual'' =
     Inr (if ''annual'' \<in> {''annual'', ''sick'', ''personal'', ''halfday''}
          then \<lparr>total = spec_quota ''annual'', used = spec_used ?reqs ''annual'',
                remaining = spec_quota ''annual'' - spec_used ?reqs ''annual''\<rparr>
          else \<lparr>total = 0, used = 0, remaining = 0\<rparr>)"
    using wf hd by (intro leave_balance) simp
  with ev1 have u1: "spec_used ?reqs ''annual'' = 3"
    by simp
  have "calculateLeaveBalance ?reqs ''personal'' =
     Inr (if ''personal'' \<in> {''annual'', ''sick'', ''personal'', ''halfday''}
          then \<lparr>total = spec_quota ''personal'', used = spec_used ?reqs ''personal'',
                remaining = spec_quota ''personal'' - spec_used ?reqs ''personal''\<rparr>
          else \<lparr>total = 0, used = 0, remaining = 0\<rparr>)"
    using wf hd by (intro leave_balance) simp
  with ev2 have u2: "spec_used ?reqs ''personal'' = 6"
    by simp
  have "calculateLeaveBalance ?reqs ''unpaid'' =
     Inr (if ''unpaid'' \<in> {''annual'', ''sick'', ''personal'', ''halfday''}
          then \<lparr>total = spec_quota ''unpaid'', used = spec_used ?reqs ''unpaid'',
                remaining = spec_quota ''unpaid'' - spec_used ?reqs ''unpaid''\<rparr>
          else \<lparr>total = 0, used = 0, remaining = 0\<rparr>)"
    using wf hd by (intro leave_balance) simp
  then have ev3: "calculateLeaveBalance ?reqs ''unpaid'' = Inr \<lparr>total = 0, used = 0, remaining = 0\<rparr>"
    by simp
  from wf ev1 ev2 ev3 u1 u2 show ?thesis by simp
qed

text \<open>The claim as stated, for every leave type and every request list, fails at the type
  unpaid, where used is 0 although the approved unpaid request spans three business
  days, and at an approved annual request that ends before it starts, where the call
  throws instead of returning a balance.\<close>

theorem leave_balance_counterexample:
  "lr_status unpaid_leave = ''approved'' \<and> lr_type unpaid_leave = ''unpaid'' \<and>
   spec_used [unpaid_leave] ''unpaid'' = 3 \<and>
   calculateLeaveBalance [unpaid_leave] ''unpaid'' = Inr \<lparr>total = 0, used = 0, remaining = 0\<rparr> \<and>
   lr_status reversed_leave = ''approved'' \<and> lr_type reversed_leave = ''annual'' \<and>
   calculateLeaveBalance [reversed_leave] ''annual'' = Inl RangeError"
proof -
  have a: "calculateLeaveBalance [unpaid_leave] ''unpaid'' = Inr \<lparr>total = 0, used = 0, remaining = 0\<rparr>"
    by code_simp
  have b: "calculateLeaveBalance [reversed_leave] ''annual'' = Inl RangeError"
    by code_simp
  from a b unpaid_spec_used show ?thesis
    by (simp add: unpaid_leave_def reversed_leave_def)
qed

section \<open>Order of the requests\<close>

lemma sum_list_map_perm:
  fixes f :: "'a \<Rightarrow> int"
  assumes "mset xs = mset ys"
  shows "sum_list (map f xs) = sum_list (map f ys)"
proof -
  from assms have "mset (map f xs) = mset (map f ys)"
    by simp
  then have "sum_mset (mset (map f xs)) = sum_mset (mset (map f ys))"
    by (rule arg_cong)
  then show ?thesis
    by (simp only: sum_mset_sum_list)
qed

text \<open>
  C8. The result of the balance calculator, and with it the used count, does not depend
  on the order of the request list: any two lists with the same requests give the same
  balance for every type.
\<close>

theorem used_order_independent:
  assumes "mset xs = mset ys"
  shows "calculateLeaveBalance xs type = calculateLeaveBalance ys type"
proof -
  define sel :: "leave_request \<Rightarrow> bool" where "sel = (\<lambda>request. lr_status request = ''approved'' \<and> lr_type request = type)"
  from assms have m: "mset (filter sel xs) = mset (filter sel ys)"
    by simp
  then have s: "set (filter sel xs) = set (filter sel ys)"
    by (rule mset_eq_setD)
  from m have "sum_list (map (spec_units type) (filter sel xs)) =
               sum_list (map (spec_units type) (filter sel ys))"
    by (rule sum_list_map_perm)
  with s have "used_reduce type (filter sel xs) 0 = used_reduce type (filter sel ys) 0"
    by (simp only: used_reduce_eq)
  then show ?thesis by (simp add: calculateLeaveBalance_def sel_def)
qed

theorem used_order_independent_witness:
  "mset [annual_leave, annual_leave2] = mset [annual_leave2, annual_leave] \<and>
   calculateLeaveBalance [annual_leave, annual_leave2] ''annual'' =
     calculateLeaveBalance [annual_leave2, annual_leave] ''annual'' \<and>
   calculateLeaveBalance [annual_leave, annual_leave2] ''annual'' =
     Inr \<lparr>total = 20, used = 5, remaining = 15\<rparr>"
proof -
  have perm: "mset [annual_leave, annual_leave2] = mset [annual_leave2, annual_leave]"
    by (simp add: add.commute)
  have ev: "calculateLeaveBalance [annual_leave, annual_leave2] ''annual'' =
     Inr \<lparr>total = 20, used = 5, remaining = 15\<rparr>"
    by code_simp
  from used_order_independent[OF perm, of "''annual''"] perm ev show ?thesis by simp
qed

section \<open>Payroll breakdown\<close>

text \<open>The doubles that the decimal literals denote.\<close>

lemma lit_values:
  "lit_0_4 = 3602879701896397 / 9007199254740992"
  "lit_0_2 = 3602879701896397 / 18014398509481984"
  "lit_0_12 = 1080863910568919 / 9007199254740992"
  "lit_0_1 = 3602879701896397 / 36028797018963968"
  "lit_1_4 = 3152519739159347 / 2251799813685248"
  by code_simp+

lemma dmul_commute: "dmul x y = dmul y x"
  by (simp add: dmul_def mult.commute)

text \<open>Rounding to the nearest double changes a value in the normal range by at most
  the fraction \<open>2 ^ -53\<close> of it.\<close>

lemma pow2_pos: "0 < pow2 e"
  by (simp add: pow2_def)

lemma pow2_powi: "pow2 e = 2 powi e"
  by (simp add: pow2_def power_int_def inverse_eq_divide power_one_over)

lemma pow2_shift: "pow2 (e - 52) = pow2 e / 2 ^ 52"
  by (simp add: pow2_powi power_int_diff)

lemma ilog2_le:
  assumes "0 < x"
  shows "pow2 (ilog2 x) \<le> x"
proof (cases "1 \<le> x")
  case True
  then have pos: "0 < \<lfloor>x\<rfloor>" by linarith
  from bitlen_bounds[OF pos] have "2 ^ nat (bitlen \<lfloor>x\<rfloor> - 1) \<le> \<lfloor>x\<rfloor>" ..
  then have "(of_int (2 ^ nat (bitlen \<lfloor>x\<rfloor> - 1)) :: rat) \<le> of_int \<lfloor>x\<rfloor>"
    by (simp only: of_int_le_iff)
  also have "\<dots> \<le> x" by simp
  finally have "(2::rat) ^ nat (bitlen \<lfloor>x\<rfloor> - 1) \<le> x" by simp
  moreover from pos have "1 \<le> bitlen \<lfloor>x\<rfloor>" by (auto simp: bitlen_alt_def)
  ultimately show ?thesis using True by (simp add: ilog2_def pow2_def)
next
  case False
  with assms have inv: "1 < 1 / x" by simp
  define n where "n = \<lceil>1 / x\<rceil> - 1"
  from inv have npos: "0 < n" unfolding n_def by linarith
  from bitlen_bounds[OF npos] have "n < 2 ^ nat (bitlen n)" ..
  then have "n + 1 \<le> 2 ^ nat (bitlen n)" by simp
  then have "(of_int (n + 1) :: rat) \<le> of_int (2 ^ nat (bitlen n))"
    by (simp only: of_int_le_iff)
  then have "(of_int \<lceil>1 / x\<rceil> :: rat) \<le> 2 ^ nat (bitlen n)"
    by (simp add: n_def)
  moreover have "1 / x \<le> of_int \<lceil>1 / x\<rceil>" by simp
  ultimately have "1 / x \<le> 2 ^ nat (bitlen n)" by linarith
  with assms have "1 / 2 ^ nat (bitlen n) \<le> x"
    by (simp add: field_simps)
  moreover from npos have "1 \<le> bitlen n" by (auto simp: bitlen_alt_def)
  ultimately show ?thesis using False by (simp add: ilog2_def pow2_def n_def)
qed

lemma round_err: "\<bar>of_int (roundHalfEven y) - y\<bar> \<le> 1 / 2"
proof -
  have "of_int \<lfloor>y\<rfloor> \<le> y" "y < of_int \<lfloor>y\<rfloor> + 1" by linarith+
  then show ?thesis
    by (auto simp: roundHalfEven_def Let_def)
qed

lemma fl_err:
  assumes "pow2 (- 1022) \<le> \<bar>x\<bar>"
  shows "\<bar>fl x - x\<bar> \<le> \<bar>x\<bar> / 2 ^ 53"
proof -
  from assms pow2_pos[of "- 1022"] have nz: "x \<noteq> 0" by auto
  define e where "e = max (ilog2 \<bar>x\<bar>) (- 1022)"
  define q where "q = pow2 (e - 52)"
  have qpos: "0 < q" by (simp add: q_def pow2_pos)
  have "pow2 e \<le> \<bar>x\<bar>"
  proof (cases "ilog2 \<bar>x\<bar> \<le> - 1022")
    case True
    then have "e = - 1022" by (simp add: e_def)
    with assms show ?thesis by simp
  next
    case False
    then have "e = ilog2 \<bar>x\<bar>" by (simp add: e_def)
    with ilog2_le[of "\<bar>x\<bar>"] nz show ?thesis by simp
  qed
  then have q_le: "q \<le> \<bar>x\<bar> / 2 ^ 52"
    by (simp add: q_def pow2_shift divide_right_mono)
  have "fl x = of_int (roundHalfEven (x / q)) * q"
    using nz by (simp add: fl_def e_def q_def Let_def)
  then have "fl x - x = (of_int (roundHalfEven (x / q)) - x / q) * q"
    using qpos by (simp add: field_simps)
  then have "\<bar>fl x - x\<bar> = \<bar>of_int (roundHalfEven (x / q)) - x / q\<bar> * q"
    using qpos by (simp add: abs_mult)
  also have "\<dots> \<le> 1 / 2 * q"
    using round_err[of "x / q"] qpos by (intro mult_right_mono) simp_all
  also have "\<dots> \<le> 1 / 2 * (\<bar>x\<bar> / 2 ^ 52)"
    using q_le by simp
  also have "\<dots> = \<bar>x\<bar> / 2 ^ 53" by simp
  finally show ?thesis .
qed

lemma fl_0: "fl 0 = 0"
  by (simp add: fl_def)

lemma pow2_small: "pow2 (- 1022) \<le> 1 / 4"
proof -
  have "(4::rat) = 2 ^ 2" by simp
  also have "\<dots> \<le> 2 ^ 1022" by (rule power_increasing) simp_all
  finally have "(4::rat) \<le> 2 ^ 1022" .
  then have "1 / (2::rat) ^ 1022 \<le> 1 / 4" by (simp add: field_simps)
  then show ?thesis by (simp add: pow2_def)
qed

text \<open>For a salary that is a non-negative integer, the gross salary the code computes is
  within \<open>baseSalary / 2 ^ 51\<close> of the exact \<open>1.4 * baseSalary\<close>.\<close>

lemma gross_close:
  assumes "0 \<le> b" "b = 0 \<or> 1 \<le> b"
  shows "\<bar>calculateGrossSalary b - 14 / 10 * b\<bar> \<le> b / 2 ^ 51"
proof (cases "b = 0")
  case True
  then show ?thesis by (simp add: calculateGrossSalary_def dadd_def dmul_def fl_0)
next
  case False
  with assms have b1: "1 \<le> b" by simp
  define p where "p = b * lit_0_4"
  define m where "m = fl p"
  define t where "t = b + m"
  have p_eq: "p = b * 2 / 5 + b / 45035996273704960"
    by (simp add: p_def lit_values(1) field_simps)
  from b1 p_eq have p_lo: "1 / 4 \<le> p" by linarith
  from b1 p_eq have p_hi: "p \<le> b / 2" by linarith
  from p_lo pow2_small have "pow2 (- 1022) \<le> \<bar>p\<bar>" by linarith
  from fl_err[OF this] p_lo have m_err: "\<bar>m - p\<bar> \<le> p / 9007199254740992"
    by (simp add: m_def)
  from m_err p_lo have m_lo: "0 \<le> m" by linarith
  from m_err p_hi p_lo have m_hi: "m \<le> b" by linarith
  from b1 m_lo pow2_small have "pow2 (- 1022) \<le> \<bar>t\<bar>" unfolding t_def by linarith
  from fl_err[OF this] b1 m_lo have t_err: "\<bar>fl t - t\<bar> \<le> t / 9007199254740992"
    by (simp add: t_def)
  have g: "calculateGrossSalary b = fl t"
    by (simp add: calculateGrossSalary_def dadd_def dmul_def t_def m_def p_def)
  have t_hi: "t \<le> 2 * b" using m_hi by (simp add: t_def)
  from t_err t_hi have d1: "\<bar>fl t - t\<bar> \<le> 2 * b / 9007199254740992"
    by linarith
  from m_err p_hi have d2: "\<bar>m - p\<bar> \<le> (b / 2) / 9007199254740992"
    by linarith
  have split: "fl t - 14 / 10 * b = (fl t - t) + (m - p) + b / 45035996273704960"
    by (simp add: t_def p_eq)
  have "\<bar>fl t - 14 / 10 * b\<bar> \<le> \<bar>fl t - t\<bar> + \<bar>m - p\<bar> + b / 45035996273704960"
    unfolding split using b1 by linarith
  also have "\<dots> \<le> 2 * b / 9007199254740992 + (b / 2) / 9007199254740992 + b / 45035996273704960"
    using d1 d2 by linarith
  also have "\<dots> \<le> b / 2251799813685248"
    using b1 by (simp add: field_simps)
  finally have "\<bar>fl t - 14 / 10 * b\<bar> \<le> b / 2251799813685248" .
  with g show ?thesis by simp
qed


text \<open>The operations on a base salary of 100000, one rounding at a time.\<close>

lemma steps_100000:
  "dmul 100000 (3602879701896397 / 9007199254740992) = 40000"
  "dadd 100000 40000 = 140000"
  "dmul 100000 (3602879701896397 / 18014398509481984) = 20000"
  "dmul 100000 (1080863910568919 / 9007199254740992) = 12000"
  "dmul 140000 (3602879701896397 / 36028797018963968) = 14000"
  "dsub 140000 12000 = 128000"
  "dsub 128000 14000 = 114000"
  "dadd 12000 14000 = 26000"
  "dsub 140000 26000 = 114000"
  by code_simp+

text \<open>The operations on a base salary of 3: \<open>3 + 3 * 0.4\<close> is the double \<open>4.2\<close>, while
  \<open>1.4 * 3\<close> is the double below it, \<open>4.199999999999999\<close>; and \<open>(gross - pf) - tds\<close> is
  \<open>3.4200000000000004\<close>, while \<open>gross - (pf + tds)\<close> is \<open>3.42\<close>.\<close>

lemma steps_3:
  "dmul 3 (3602879701896397 / 9007199254740992) = 1351079888211149 / 1125899906842624"
  "dadd 3 (1351079888211149 / 1125899906842624) = 4728779608739021 / 1125899906842624"
  "dmul (3152519739159347 / 2251799813685248) 3 = 1182194902184755 / 281474976710656"
  "dmul 3 (1080863910568919 / 9007199254740992) = 3242591731706757 / 9007199254740992"
  "dmul (4728779608739021 / 1125899906842624) (3602879701896397 / 36028797018963968) =
     3783023686991217 / 9007199254740992"
  "dsub (4728779608739021 / 1125899906842624) (3242591731706757 / 9007199254740992) =
     8646911284551353 / 2251799813685248"
  "dsub (8646911284551353 / 2251799813685248) (3783023686991217 / 9007199254740992) =
     7701155362803549 / 2251799813685248"
  "dadd (3242591731706757 / 9007199254740992) (3783023686991217 / 9007199254740992) =
     3512807709348987 / 4503599627370496"
  "dsub (4728779608739021 / 1125899906842624) (3512807709348987 / 4503599627370496) =
     1925288840700887 / 562949953421312"
  by code_simp+

text \<open>
  C2, as the code has it. Every operation is a double precision operation, as JavaScript
  evaluates it. For every base salary the row of the payroll report has
  \<open>grossSalary = baseSalary + baseSalary * 0.4\<close> (for a non-negative salary within
  \<open>baseSalary / 2 ^ 51\<close> of the exact \<open>1.4 * baseSalary\<close>), \<open>hra = 0.2 * baseSalary\<close>,
  \<open>pf = 0.12 * baseSalary\<close>, \<open>tds = 0.1 * grossSalary\<close> and
  \<open>netSalary = grossSalary - pf - tds\<close>; the helper functions of the payroll page compute
  the same gross salary, HRA, provident fund and TDS, and its net salary is
  \<open>grossSalary - (pf + tds)\<close>. A base salary of 100000 yields 140000, 20000, 12000, 14000
  and 114000 on both pages.
\<close>

theorem payroll_breakdown:
  "grossSalary (payroll_of e) = dadd (salary_or_0 e) (dmul lit_0_4 (salary_or_0 e)) \<and>
   hra (payroll_of e) = dmul lit_0_2 (salary_or_0 e) \<and>
   pf (payroll_of e) = dmul lit_0_12 (salary_or_0 e) \<and>
   tds (payroll_of e) = dmul lit_0_1 (grossSalary (payroll_of e)) \<and>
   netSalary (payroll_of e) =
     dsub (dsub (grossSalary (payroll_of e)) (pf (payroll_of e))) (tds (payroll_of e)) \<and>
   calculateGrossSalary (salary_or_0 e) = grossSalary (payroll_of e) \<and>
   calculateHRA (salary_or_0 e) = hra (payroll_of e) \<and>
   calculateProvidentFund (salary_or_0 e) = pf (payroll_of e) \<and>
   calculateTDS (calculateGrossSalary (salary_or_0 e)) = tds (payroll_of e) \<and>
   page_netSalary e =
     dsub (grossSalary (payroll_of e)) (dadd (pf (payroll_of e)) (tds (payroll_of e))) \<and>
   (0 \<le> salary_or_0 e \<longrightarrow>
      \<bar>grossSalary (payroll_of e) - 14 / 10 * salary_or_0 e\<bar> \<le> salary_or_0 e / 2 ^ 51) \<and>
   payroll_of (with_salary 100000) =
     \<lparr>p_user = with_salary 100000, p_salary = 100000, grossSalary = 140000, hra = 20000,
      pf = 12000, tds = 14000, netSalary = 114000\<rparr> \<and>
   page_netSalary (with_salary 100000) = 114000"
proof -
  have general:
    "grossSalary (payroll_of e) = dadd (salary_or_0 e) (dmul lit_0_4 (salary_or_0 e)) \<and>
     hra (payroll_of e) = dmul lit_0_2 (salary_or_0 e) \<and>
     pf (payroll_of e) = dmul lit_0_12 (salary_or_0 e) \<and>
     tds (payroll_of e) = dmul lit_0_1 (grossSalary (payroll_of e)) \<and>
     netSalary (payroll_of e) =
       dsub (dsub (grossSalary (payroll_of e)) (pf (payroll_of e))) (tds (payroll_of e)) \<and>
     calculateGrossSalary (salary_or_0 e) = grossSalary (payroll_of e) \<and>
     calculateHRA (salary_or_0 e) = hra (payroll_of e) \<and>
     calculateProvidentFund (salary_or_0 e) = pf (payroll_of e) \<and>
     calculateTDS (calculateGrossSalary (salary_or_0 e)) = tds (payroll_of e) \<and>
     page_netSalary e =
       dsub (grossSalary (payroll_of e)) (dadd (pf (payroll_of e)) (tds (payroll_of e)))"
    by (simp add: payroll_of_def dmul_commute[of lit_0_4] dmul_commute[of lit_0_2]
        dmul_commute[of lit_0_12] dmul_commute[of lit_0_1] calculateGrossSalary_def
        calculateHRA_def calculateProvidentFund_def calculateTDS_def calculateNetSalary_def
        page_netSalary_def)
  have close: "0 \<le> salary_or_0 e \<longrightarrow>
      \<bar>grossSalary (payroll_of e) - 14 / 10 * salary_or_0 e\<bar> \<le> salary_or_0 e / 2 ^ 51"
  proof
    assume nonneg: "0 \<le> salary_or_0 e"
    have "salary_or_0 e = 0 \<or> 1 \<le> salary_or_0 e"
    proof (cases "salary e")
      case None
      then show ?thesis by (simp add: salary_or_0_def)
    next
      case (Some s)
      with nonneg have "0 \<le> s" by (simp add: salary_or_0_def)
      then have "s = 0 \<or> 1 \<le> s" by linarith
      with Some show ?thesis by (auto simp: salary_or_0_def)
    qed
    from gross_close[OF nonneg this] show
      "\<bar>grossSalary (payroll_of e) - 14 / 10 * salary_or_0 e\<bar> \<le> salary_or_0 e / 2 ^ 51"
      by (simp add: payroll_of_def calculateGrossSalary_def)
  qed
  have row: "payroll_of (with_salary 100000) =
     \<lparr>p_user = with_salary 100000, p_salary = 100000, grossSalary = 140000, hra = 20000,
      pf = 12000, tds = 14000, netSalary = 114000\<rparr>"
    by (simp add: payroll_of_def salary_or_0_def with_salary_def lit_values steps_100000)
  have page: "page_netSalary (with_salary 100000) = 114000"
    by (simp add: page_netSalary_def calculateGrossSalary_def calculateProvidentFund_def
        calculateTDS_def calculateNetSalary_def salary_or_0_def with_salary_def lit_values
        steps_100000)
  from general close row page show ?thesis by blast
qed

theorem payroll_breakdown_witness:
  "salary (with_salary 100000) = Some 100000 \<and>
   0 \<le> salary_or_0 (with_salary 100000) \<and>
   \<bar>grossSalary (payroll_of (with_salary 100000)) - 14 / 10 * 100000\<bar> \<le> 100000 / 2 ^ 51 \<and>
   grossSalary (payroll_of (with_salary 100000)) = 140000 \<and>
   hra (payroll_of (with_salary 100000)) = 20000 \<and>
   pf (payroll_of (with_salary 100000)) = 12000 \<and>
   tds (payroll_of (with_salary 100000)) = 14000 \<and>
   netSalary (payroll_of (with_salary 100000)) = 114000"
  using payroll_breakdown[of "with_salary 100000"]
  by (simp add: with_salary_def salary_or_0_def)

text \<open>The claim as stated fails at a base salary of 3: the gross salary is not the double
  \<open>1.4 * 3\<close> (nor the rational \<open>4.2\<close>), and on the payroll page the net salary is not
  \<open>grossSalary - pf - tds\<close>.\<close>

theorem payroll_breakdown_counterexample:
  "grossSalary (payroll_of (with_salary 3)) \<noteq> dmul lit_1_4 3 \<and>
   grossSalary (payroll_of (with_salary 3)) \<noteq> 14 / 10 * 3 \<and>
   page_netSalary (with_salary 3) \<noteq>
     dsub (dsub (calculateGrossSalary 3) (calculateProvidentFund 3))
          (calculateTDS (calculateGrossSalary 3))"
  by (simp add: payroll_of_def page_netSalary_def calculateGrossSalary_def
      calculateProvidentFund_def calculateTDS_def calculateNetSalary_def salary_or_0_def
      with_salary_def lit_values steps_3)

end
